theory Spec2Isabelle
  imports Main "HOL-Library.Finite_Map" "HOL-Library.Char_ord" "HOL-Library.List_Lexorder"
begin

section \<open>The transcoding module of eventsourcing: data model\<close>

text \<open>
  The development embeds \<^verbatim>\<open>src/eventsourcing/domain/services/transcoding.py\<close>.
  Python dictionaries with string keys (instance \<^verbatim>\<open>__dict__\<close>s, decoded JSON objects)
  are finite maps, so two dictionaries are equal exactly when they hold the same items,
  as Python's \<^verbatim>\<open>==\<close> on dictionaries has it. Dictionaries with other keys are outside the
  model. A JSON document is kept as its tree; the text that \<^verbatim>\<open>json.dumps\<close> prints and
  \<^verbatim>\<open>json.loads\<close> parses is identified with that tree (constructor \<open>Doc\<close>), and
  every other string is \<open>Opaque\<close>.
\<close>

subsection \<open>Classes and values\<close>

text \<open>
  A class, as far as the module looks at it: \<^verbatim>\<open>__module__\<close>, \<^verbatim>\<open>__qualname__\<close>,
  whether it is a subclass of \<^verbatim>\<open>DomainEvent\<close>, its class attribute
  \<^verbatim>\<open>always_encrypt\<close>, and whether \<^verbatim>\<open>object.__new__(cls)\<close> returns an instance
  (it raises \<^verbatim>\<open>TypeError\<close> for a class with abstract methods).
\<close>

record pyclass =
  cls_module :: string
  cls_qualname :: string
  is_domain_event :: bool
  cls_always_encrypt :: bool
  cls_new_ok :: bool

datatype pyfloat = Float64 int

datatype date = Date (year: nat) (month: nat) (day: nat)

datatype datetime =
  Datetime (dt_date: date) (hour: nat) (minute: nat) (second: nat) (microsecond: nat)
    (utcoffset: "int option")

datatype ndarray = Ndarray (ndim: nat) (buffer: string)

datatype pyval =
    PNone
  | PBool bool
  | PInt int
  | PFloat pyfloat
  | PStr string
  | PList "pyval list"
  | PTuple "pyval list"
  | PDict "(string, pyval) fmap"
  | PDatetime datetime
  | PDate date
  | PNdarray ndarray
  | PObj pyclass "(string, pyval) fmap"

type_synonym attrs = "(string, pyval) fmap"

datatype json =
    JNull
  | JBool bool
  | JInt int
  | JFloat pyfloat
  | JStr string
  | JArr "json list"
  | JObj "(string, json) fmap"

datatype wire = Doc json | Opaque string

text \<open>What a dotted name inside a module is bound to: a class, or some other value.\<close>

datatype symbol = SymClass pyclass | SymValue pyval

text \<open>
  The field \<^verbatim>\<open>event_attrs\<close> of a stored event, and the local variable of that name in
  \<^verbatim>\<open>deserialize\<close>: a string (the JSON text or what the cipher made of it), or any other
  Python value (the dictionary itself when JSON is switched off).
\<close>

datatype bag = Str wire | Value pyval

subsection \<open>Exceptions\<close>

text \<open>
  The module raises \<^verbatim>\<open>ValueError\<close> at five places; the constructor records which message
  it carries and the values formatted into it. Every other exception comes from the
  interpreter or a library.
\<close>

datatype value_error =
    NotAType symbol
  | NotADomainEvent pyclass
  | CannotEncrypt
  | CannotDecrypt
  | UnableToInstantiate string bag
  | LibraryValueError

datatype error =
    ValueError value_error
  | TypeError
  | KeyError string
  | AttributeError
  | AssertionError
  | ImportError
  | IndexError
  | NameError
  | JSONDecodeError
  | TopicResolutionError string
  | OtherError string

subsection \<open>The interpreter and the libraries\<close>

text \<open>
  What the module calls but does not define is a field of the environment:
  whether numpy could be imported, the formatting and parsing of dates and times
  (\<^verbatim>\<open>strftime\<close>, \<^verbatim>\<open>dateutil.parser.parse\<close>, \<^verbatim>\<open>isoformat\<close>, \<^verbatim>\<open>strptime\<close>),
  the numpy buffer pipeline (\<^verbatim>\<open>numpy.save\<close> into a \<^verbatim>\<open>BytesIO\<close>, decoded as latin-1 and
  dumped as a JSON string, and back), the importable modules with the names bound in
  them, the topics that resolve and the topic of a class (both belong to
  \<^verbatim>\<open>eventsourcing.domain.model.events\<close>, which is not among the sources), what calling
  a class with keyword arguments returns,
  \<^verbatim>\<open>str()\<close> of a value that is not a string, \<^verbatim>\<open>dict.update\<close> on an iterable
  that is not a dictionary, and \<^verbatim>\<open>in\<close> on a numpy array.
\<close>

record env =
  E_numpy :: bool
  E_strftime :: "datetime \<Rightarrow> string"
  E_dateutil_parse :: "string \<Rightarrow> error + datetime"
  E_isoformat :: "date \<Rightarrow> string"
  E_strptime :: "string \<Rightarrow> error + date"
  E_ndarray_dumps :: "ndarray \<Rightarrow> string"
  E_ndarray_loads :: "string \<Rightarrow> error + ndarray"
  E_modules :: "string \<Rightarrow> (string \<Rightarrow> symbol option) option"
  E_topics :: "string \<Rightarrow> symbol option"
  E_topic_from_domain_class :: "pyclass \<Rightarrow> string"
  E_construct :: "pyclass \<Rightarrow> attrs \<Rightarrow> error + pyval"
  E_str :: "pyval \<Rightarrow> string"
  E_update_iterable :: "pyval \<Rightarrow> error + attrs"
  E_in_ndarray :: "string \<Rightarrow> ndarray \<Rightarrow> bool"

definition builtin_class :: "string \<Rightarrow> string \<Rightarrow> pyclass" where
  "builtin_class m q =
     \<lparr>cls_module = m, cls_qualname = q, is_domain_event = False,
      cls_always_encrypt = False, cls_new_ok = False\<rparr>"

text \<open>\<^verbatim>\<open>obj.__class__\<close>: the class of an instance, or the built-in type of the value.\<close>

fun class_of :: "pyval \<Rightarrow> pyclass" where
  "class_of (PObj c a) = c"
| "class_of PNone = builtin_class ''builtins'' ''NoneType''"
| "class_of (PBool b) = builtin_class ''builtins'' ''bool''"
| "class_of (PInt i) = builtin_class ''builtins'' ''int''"
| "class_of (PFloat f) = builtin_class ''builtins'' ''float''"
| "class_of (PStr s) = builtin_class ''builtins'' ''str''"
| "class_of (PList xs) = builtin_class ''builtins'' ''list''"
| "class_of (PTuple xs) = builtin_class ''builtins'' ''tuple''"
| "class_of (PDict m) = builtin_class ''builtins'' ''dict''"
| "class_of (PDatetime d) = builtin_class ''datetime'' ''datetime''"
| "class_of (PDate d) = builtin_class ''datetime'' ''date''"
| "class_of (PNdarray a) = builtin_class ''numpy'' ''ndarray''"

section \<open>ObjectJSONEncoder\<close>

text \<open>
  \<^verbatim>\<open>ObjectJSONEncoder.default\<close>. The call of the inherited \<^verbatim>\<open>default\<close> always raises
  a \<^verbatim>\<open>TypeError\<close> whose message contains "not JSON serializable", so the handler's
  chain of tests is what runs. Every dictionary it returns has string values.
\<close>

fun ObjectJSONEncoder_default :: "env \<Rightarrow> pyval \<Rightarrow> (string, string) fmap" where
  "ObjectJSONEncoder_default E (PDatetime obj) =
     fmupd ''ISO8601_datetime'' (E_strftime E obj) fmempty"
| "ObjectJSONEncoder_default E (PDate obj) =
     fmupd ''ISO8601_date'' (E_isoformat E obj) fmempty"
| "ObjectJSONEncoder_default E (PNdarray obj) =
     (if E_numpy E \<and> ndim obj = 1
      then fmupd ''__ndarray__'' (E_ndarray_dumps E obj) fmempty
      else fmupd ''__class__'' (cls_qualname (class_of (PNdarray obj)))
             (fmupd ''__module__'' (cls_module (class_of (PNdarray obj))) fmempty))"
| "ObjectJSONEncoder_default E obj =
     fmupd ''__class__'' (cls_qualname (class_of obj))
       (fmupd ''__module__'' (cls_module (class_of obj)) fmempty)"

text \<open>
  \<^verbatim>\<open>json.JSONEncoder\<close>: the values JSON has are encoded directly (a tuple as an array),
  every other value goes through the \<^verbatim>\<open>default\<close> hook of the encoder class, whose
  dictionary of strings is encoded as an object.
\<close>

primrec encode_value :: "(pyval \<Rightarrow> (string, string) fmap) \<Rightarrow> pyval \<Rightarrow> json" where
  "encode_value h PNone = JNull"
| "encode_value h (PBool b) = JBool b"
| "encode_value h (PInt i) = JInt i"
| "encode_value h (PFloat f) = JFloat f"
| "encode_value h (PStr s) = JStr s"
| "encode_value h (PList xs) = JArr (map (encode_value h) xs)"
| "encode_value h (PTuple xs) = JArr (map (encode_value h) xs)"
| "encode_value h (PDict m) = JObj (fmmap (encode_value h) m)"
| "encode_value h (PDatetime d) = JObj (fmmap JStr (h (PDatetime d)))"
| "encode_value h (PDate d) = JObj (fmmap JStr (h (PDate d)))"
| "encode_value h (PNdarray a) = JObj (fmmap JStr (h (PNdarray a)))"
| "encode_value h (PObj c a) = JObj (fmmap JStr (h (PObj c a)))"

definition ObjectJSONEncoder_encode :: "env \<Rightarrow> pyval \<Rightarrow> json" where
  "ObjectJSONEncoder_encode E = encode_value (ObjectJSONEncoder_default E)"

section \<open>ObjectJSONDecoder\<close>

subsection \<open>Python's operators on the values the hook can meet\<close>

definition bindE :: "error + 'a \<Rightarrow> ('a \<Rightarrow> error + 'b) \<Rightarrow> error + 'b" where
  "bindE r f = (case r of Inl e \<Rightarrow> Inl e | Inr x \<Rightarrow> f x)"

fun contains_str :: "string \<Rightarrow> string \<Rightarrow> bool" where
  "contains_str k [] = (k = [])"
| "contains_str k (c # cs) = (take (length k) (c # cs) = k \<or> contains_str k cs)"

text \<open>
  \<^verbatim>\<open>key in d\<close>: membership of the key in a dictionary, of the substring in a
  string, of the string among the elements of a list or tuple; \<^verbatim>\<open>TypeError\<close> for a
  value that is not iterable (an instance of a plain class included).
\<close>

fun py_in :: "env \<Rightarrow> string \<Rightarrow> pyval \<Rightarrow> error + bool" where
  "py_in E k (PDict m) = Inr (k |\<in>| fmdom m)"
| "py_in E k (PStr s) = Inr (contains_str k s)"
| "py_in E k (PList xs) = Inr (PStr k \<in> set xs)"
| "py_in E k (PTuple xs) = Inr (PStr k \<in> set xs)"
| "py_in E k (PNdarray a) = Inr (E_in_ndarray E k a)"
| "py_in E k v = Inl TypeError"

text \<open>\<^verbatim>\<open>d[key]\<close> with a string key.\<close>

fun py_getitem :: "pyval \<Rightarrow> string \<Rightarrow> error + pyval" where
  "py_getitem (PDict m) k = (case fmlookup m k of None \<Rightarrow> Inl (KeyError k) | Some v \<Rightarrow> Inr v)"
| "py_getitem (PNdarray a) k = Inl IndexError"
| "py_getitem v k = Inl TypeError"

text \<open>
  \<^verbatim>\<open>d.pop(key)\<close> with a string key: the value and the dictionary without the key.
  A list takes an integer index (\<^verbatim>\<open>TypeError\<close>); the other values have no \<^verbatim>\<open>pop\<close>.
\<close>

fun py_pop :: "pyval \<Rightarrow> string \<Rightarrow> error + (pyval \<times> pyval)" where
  "py_pop (PDict m) k =
     (case fmlookup m k of None \<Rightarrow> Inl (KeyError k) | Some v \<Rightarrow> Inr (v, PDict (fmdrop k m)))"
| "py_pop (PList xs) k = Inl TypeError"
| "py_pop v k = Inl AttributeError"

subsection \<open>The decoders of the tagged forms\<close>

text \<open>
  \<^verbatim>\<open>_decode_ndarray\<close>. \<^verbatim>\<open>BytesIO\<close> is bound by the same \<^verbatim>\<open>try\<close> that imports numpy,
  so without numpy the name is undefined. \<^verbatim>\<open>json.loads\<close> of a value that is not a
  string raises \<^verbatim>\<open>TypeError\<close>.
\<close>

definition decode_ndarray :: "env \<Rightarrow> pyval \<Rightarrow> error + pyval" where
  "decode_ndarray E d =
     bindE (py_getitem d ''__ndarray__'') (\<lambda>serialized.
       if \<not> E_numpy E then Inl NameError
       else (case serialized of
               PStr s \<Rightarrow> bindE (E_ndarray_loads E s) (\<lambda>a. Inr (PNdarray a))
             | _ \<Rightarrow> Inl TypeError))"

text \<open>\<^verbatim>\<open>_decode_date\<close>: \<^verbatim>\<open>strptime\<close> with the format \<^verbatim>\<open>%Y-%m-%d\<close>, then \<^verbatim>\<open>.date()\<close>.\<close>

definition decode_date :: "env \<Rightarrow> pyval \<Rightarrow> error + pyval" where
  "decode_date E d =
     bindE (py_getitem d ''ISO8601_date'') (\<lambda>x.
       case x of PStr s \<Rightarrow> bindE (E_strptime E s) (\<lambda>r. Inr (PDate r)) | _ \<Rightarrow> Inl TypeError)"

text \<open>\<^verbatim>\<open>_decode_datetime\<close>: \<^verbatim>\<open>dateutil.parser.parse\<close>.\<close>

definition decode_datetime :: "env \<Rightarrow> pyval \<Rightarrow> error + pyval" where
  "decode_datetime E d =
     bindE (py_getitem d ''ISO8601_datetime'') (\<lambda>x.
       case x of PStr s \<Rightarrow> bindE (E_dateutil_parse E s) (\<lambda>r. Inr (PDatetime r))
       | _ \<Rightarrow> Inl TypeError)"

text \<open>
  \<^verbatim>\<open>importlib.import_module\<close>: a name that is not a string has no \<^verbatim>\<open>startswith\<close>.
\<close>

definition import_module :: "env \<Rightarrow> pyval \<Rightarrow> error + (string \<Rightarrow> symbol option)" where
  "import_module E module_name =
     (case module_name of
        PStr s \<Rightarrow> (case E_modules E s of None \<Rightarrow> Inl ImportError | Some module \<Rightarrow> Inr module)
      | _ \<Rightarrow> Inl AttributeError)"

text \<open>
  Modelled from the spec: \<^verbatim>\<open>resolve_attr\<close> of \<^verbatim>\<open>eventsourcing.domain.model.events\<close>,
  which is not among the sources. The spec has the decoder resolve the qualified name to
  a type inside the imported module; a name bound to nothing there is an
  \<^verbatim>\<open>AttributeError\<close>.
\<close>

definition resolve_attr :: "(string \<Rightarrow> symbol option) \<Rightarrow> pyval \<Rightarrow> error + symbol" where
  "resolve_attr module class_name =
     (case class_name of
        PStr s \<Rightarrow> (case module s of None \<Rightarrow> Inl AttributeError | Some bound \<Rightarrow> Inr bound)
      | _ \<Rightarrow> Inl AttributeError)"

text \<open>\<^verbatim>\<open>cls(**kwargs)\<close>: calling what the name is bound to.\<close>

definition call_symbol :: "env \<Rightarrow> symbol \<Rightarrow> attrs \<Rightarrow> error + pyval" where
  "call_symbol E cls kwargs =
     (case cls of SymClass c \<Rightarrow> E_construct E c kwargs | SymValue v \<Rightarrow> Inl TypeError)"

text \<open>
  The loop \<^verbatim>\<open>for attr, value in d.items(): obj.__dict__[attr] = from_jsonable(value)\<close>,
  given for each attribute the result of \<^verbatim>\<open>from_jsonable(value)\<close>. The right-hand side is
  evaluated first; then \<^verbatim>\<open>obj.__dict__\<close>, which only an instance has.
\<close>

fun assign_attrs :: "pyval \<Rightarrow> (string \<times> (error + pyval)) list \<Rightarrow> error + pyval" where
  "assign_attrs obj [] = Inr obj"
| "assign_attrs obj ((attr, Inl e) # rest) = Inl e"
| "assign_attrs (PObj c a) ((attr, Inr v) # rest) = assign_attrs (PObj c (fmupd attr v a)) rest"
| "assign_attrs obj ((attr, Inr v) # rest) = Inl AttributeError"

text \<open>
  \<^verbatim>\<open>_decode_class\<close>. The argument \<open>rec\<close> holds, for each item of \<open>d\<close>, what
  \<^verbatim>\<open>ObjectJSONDecoder.from_jsonable\<close> returns on its value; the items are visited in the
  order of their keys.
\<close>

definition decode_class :: "env \<Rightarrow> (string, error + pyval) fmap \<Rightarrow> pyval \<Rightarrow> error + pyval" where
  "decode_class E rec d =
     bindE (py_pop d ''__class__'') (\<lambda>(class_name, d1).
     bindE (py_pop d1 ''__module__'') (\<lambda>(module_name, d2).
     bindE (import_module E module_name) (\<lambda>module.
     bindE (resolve_attr module class_name) (\<lambda>cls.
       let kwargs = (case d2 of PDict m \<Rightarrow> m | _ \<Rightarrow> fmempty) in
       (case call_symbol E cls kwargs of
          Inr obj \<Rightarrow> Inr obj
        | Inl e \<Rightarrow>
            bindE (call_symbol E cls fmempty) (\<lambda>obj.
              assign_attrs obj
                (sorted_list_of_fmap
                   (fmdrop ''__class__'' (fmdrop ''__module__'' rec)))))))))"

text \<open>
  \<^verbatim>\<open>ObjectJSONDecoder.from_jsonable(d)\<close>, one step: the chain of tests on \<open>d\<close>, with
  \<open>rec\<close> as in \<open>decode_class\<close>.
\<close>

definition from_jsonable_step ::
  "env \<Rightarrow> (string, error + pyval) fmap \<Rightarrow> pyval \<Rightarrow> error + pyval" where
  "from_jsonable_step E rec d =
     bindE (py_in E ''__ndarray__'' d) (\<lambda>is_ndarray.
       if is_ndarray then decode_ndarray E d
       else bindE (py_in E ''__class__'' d) (\<lambda>has_class.
         bindE (if has_class then py_in E ''__module__'' d else Inr False) (\<lambda>is_class.
           if is_class then decode_class E rec d
           else bindE (py_in E ''ISO8601_datetime'' d) (\<lambda>is_datetime.
             if is_datetime then decode_datetime E d
             else bindE (py_in E ''ISO8601_date'' d) (\<lambda>is_date.
               if is_date then decode_date E d
               else Inr d)))))"

text \<open>
  \<^verbatim>\<open>from_jsonable\<close> calls itself, through \<^verbatim>\<open>_decode_class\<close>, on the values of a
  dictionary only.
\<close>

primrec from_jsonable :: "env \<Rightarrow> pyval \<Rightarrow> error + pyval" where
  "from_jsonable E (PDict m) = from_jsonable_step E (fmmap (from_jsonable E) m) (PDict m)"
| "from_jsonable E PNone = from_jsonable_step E fmempty PNone"
| "from_jsonable E (PBool b) = from_jsonable_step E fmempty (PBool b)"
| "from_jsonable E (PInt i) = from_jsonable_step E fmempty (PInt i)"
| "from_jsonable E (PFloat f) = from_jsonable_step E fmempty (PFloat f)"
| "from_jsonable E (PStr s) = from_jsonable_step E fmempty (PStr s)"
| "from_jsonable E (PList xs) = from_jsonable_step E fmempty (PList xs)"
| "from_jsonable E (PTuple xs) = from_jsonable_step E fmempty (PTuple xs)"
| "from_jsonable E (PDatetime d) = from_jsonable_step E fmempty (PDatetime d)"
| "from_jsonable E (PDate d) = from_jsonable_step E fmempty (PDate d)"
| "from_jsonable E (PNdarray a) = from_jsonable_step E fmempty (PNdarray a)"
| "from_jsonable E (PObj c a) = from_jsonable_step E fmempty (PObj c a)"

subsection \<open>json.loads with an object hook\<close>

text \<open>The first exception raised while the members are decoded in order.\<close>

fun collect_list :: "(error + 'a) list \<Rightarrow> error + 'a list" where
  "collect_list [] = Inr []"
| "collect_list (Inl e # rs) = Inl e"
| "collect_list (Inr x # rs) = (case collect_list rs of Inl e \<Rightarrow> Inl e | Inr xs \<Rightarrow> Inr (x # xs))"

definition collect_fmap :: "(string, error + 'a) fmap \<Rightarrow> error + (string, 'a) fmap" where
  "collect_fmap m =
     (case collect_list (map snd (sorted_list_of_fmap m)) of
        Inl e \<Rightarrow> Inl e
      | Inr xs \<Rightarrow> Inr (fmmap projr m))"

text \<open>
  \<^verbatim>\<open>json.JSONDecoder\<close> with \<^verbatim>\<open>object_hook\<close>: arrays become lists, and every object,
  once its members are decoded, is passed to the hook, whose result stands for it.
\<close>

primrec decode_value :: "(pyval \<Rightarrow> error + pyval) \<Rightarrow> json \<Rightarrow> error + pyval" where
  "decode_value h JNull = Inr PNone"
| "decode_value h (JBool b) = Inr (PBool b)"
| "decode_value h (JInt i) = Inr (PInt i)"
| "decode_value h (JFloat f) = Inr (PFloat f)"
| "decode_value h (JStr s) = Inr (PStr s)"
| "decode_value h (JArr xs) =
     bindE (collect_list (map (decode_value h) xs)) (\<lambda>ys. Inr (PList ys))"
| "decode_value h (JObj m) =
     bindE (collect_fmap (fmmap (decode_value h) m)) (\<lambda>d. h (PDict d))"

definition ObjectJSONDecoder_decode :: "env \<Rightarrow> wire \<Rightarrow> error + pyval" where
  "ObjectJSONDecoder_decode E s =
     (case s of Doc j \<Rightarrow> decode_value (from_jsonable E) j | Opaque x \<Rightarrow> Inl JSONDecodeError)"

section \<open>Stored entity ids\<close>

text \<open>\<^verbatim>\<open>'{}'.format(x)\<close>: a string is inserted as it is, another value through \<^verbatim>\<open>str\<close>.\<close>

fun py_format :: "env \<Rightarrow> pyval \<Rightarrow> string" where
  "py_format E (PStr s) = s"
| "py_format E v = E_str E v"

definition make_stored_entity_id :: "env \<Rightarrow> pyval \<Rightarrow> pyval \<Rightarrow> string" where
  "make_stored_entity_id E id_prefix entity_id =
     py_format E id_prefix @ ''::'' @ py_format E entity_id"

text \<open>\<^verbatim>\<open>s.split(sep)\<close> for a separator of one character.\<close>

fun split_on :: "char \<Rightarrow> string \<Rightarrow> string list" where
  "split_on sep [] = [[]]"
| "split_on sep (c # cs) =
     (if c = sep then [] # split_on sep cs
      else (case split_on sep cs of [] \<Rightarrow> [[c]] | w # ws \<Rightarrow> (c # w) # ws))"

definition id_prefix_from_event_class :: "pyclass \<Rightarrow> error + string" where
  "id_prefix_from_event_class domain_event_class =
     (if \<not> is_domain_event domain_event_class then Inl AssertionError
      else (case split_on CHR ''.'' (cls_qualname domain_event_class) of
              [] \<Rightarrow> Inl IndexError
            | w # ws \<Rightarrow> Inr w))"

definition id_prefix_from_event :: "pyval \<Rightarrow> error + string" where
  "id_prefix_from_event domain_event =
     (if \<not> is_domain_event (class_of domain_event) then Inl AssertionError
      else id_prefix_from_event_class (class_of domain_event))"

section \<open>Transcoder\<close>

text \<open>
  The cipher is injected; the module only calls \<^verbatim>\<open>encrypt\<close> and \<^verbatim>\<open>decrypt\<close> on
  strings. A codec class other than the module's own is represented by what
  \<^verbatim>\<open>json.dumps\<close> respectively \<^verbatim>\<open>json.loads\<close> computes with it.
\<close>

record cipher_adapter =
  encrypt :: "wire \<Rightarrow> wire"
  decrypt :: "wire \<Rightarrow> wire"

datatype encoder_cls = ObjectJSONEncoder | OtherEncoder "attrs \<Rightarrow> error + wire"

datatype decoder_cls = ObjectJSONDecoder | OtherDecoder "wire \<Rightarrow> error + pyval"

text \<open>
  The instance attributes set by \<^verbatim>\<open>__init__\<close> and the two class attributes
  \<^verbatim>\<open>serialize_without_json\<close> (default \<^verbatim>\<open>False\<close>) and \<^verbatim>\<open>serialize_with_uuid1\<close>
  (default \<^verbatim>\<open>True\<close>).
\<close>

record transcoder =
  json_encoder_cls :: "encoder_cls option"
  json_decoder_cls :: "decoder_cls option"
  cipher :: "cipher_adapter option"
  always_encrypt :: bool
  serialize_without_json :: bool
  serialize_with_uuid1 :: bool

record stored_event =
  event_id :: pyval
  stored_entity_id :: string
  event_topic :: string
  event_attrs :: bag

definition json_dumps :: "env \<Rightarrow> encoder_cls \<Rightarrow> attrs \<Rightarrow> error + wire" where
  "json_dumps E cls attrs =
     (case cls of
        ObjectJSONEncoder \<Rightarrow> Inr (Doc (ObjectJSONEncoder_encode E (PDict attrs)))
      | OtherEncoder f \<Rightarrow> f attrs)"

definition json_loads :: "env \<Rightarrow> decoder_cls \<Rightarrow> wire \<Rightarrow> error + pyval" where
  "json_loads E cls s =
     (case cls of
        ObjectJSONDecoder \<Rightarrow> ObjectJSONDecoder_decode E s
      | OtherDecoder g \<Rightarrow> g s)"

text \<open>
  Modelled from the spec: \<^verbatim>\<open>resolve_domain_topic\<close> of
  \<^verbatim>\<open>eventsourcing.domain.model.events\<close>, which is not among the sources. By the spec
  it returns what the topic names, and fails with a type resolution error when the
  module or the type cannot be located.
\<close>

definition resolve_domain_topic :: "env \<Rightarrow> string \<Rightarrow> error + symbol" where
  "resolve_domain_topic E topic =
     (case E_topics E topic of None \<Rightarrow> Inl (TopicResolutionError topic) | Some x \<Rightarrow> Inr x)"

text \<open>
  Modelled from the spec: \<^verbatim>\<open>topic_from_domain_class\<close> of the same module. By the spec
  the topic is a string determined by the class alone.
\<close>

definition topic_from_domain_class :: "env \<Rightarrow> pyclass \<Rightarrow> string" where
  "topic_from_domain_class E c = E_topic_from_domain_class E c"

text \<open>\<^verbatim>\<open>domain_event.entity_id\<close>, looked up in the instance dictionary.\<close>

definition get_entity_id :: "attrs \<Rightarrow> error + pyval" where
  "get_entity_id d =
     (case fmlookup d ''entity_id'' of None \<Rightarrow> Inl AttributeError | Some v \<Rightarrow> Inr v)"

text \<open>
  Lines 61 to 65 of \<^verbatim>\<open>serialize\<close>: the event id and the attributes left in the copy.
  \<open>fresh\<close> is the string \<^verbatim>\<open>uuid.uuid4().hex\<close> returns in this call.
\<close>

definition take_event_id :: "transcoder \<Rightarrow> string \<Rightarrow> attrs \<Rightarrow> error + (pyval \<times> attrs)" where
  "take_event_id self fresh attrs =
     (if serialize_with_uuid1 self
      then (case fmlookup attrs ''domain_event_id'' of
              None \<Rightarrow> Inl (KeyError ''domain_event_id'')
            | Some v \<Rightarrow> Inr (v, fmdrop ''domain_event_id'' attrs))
      else Inr (PStr fresh, attrs))"

definition default_encoder :: "transcoder \<Rightarrow> encoder_cls" where
  "default_encoder self =
     (case json_encoder_cls self of None \<Rightarrow> ObjectJSONEncoder | Some c \<Rightarrow> c)"

definition default_decoder :: "transcoder \<Rightarrow> decoder_cls" where
  "default_decoder self =
     (case json_decoder_cls self of None \<Rightarrow> ObjectJSONDecoder | Some c \<Rightarrow> c)"

text \<open>
  Lines 72 to 82: the payload, and the transcoder after the assignment to
  \<^verbatim>\<open>self.json_encoder_cls\<close>.
\<close>

definition serialize_attrs ::
  "env \<Rightarrow> transcoder \<Rightarrow> pyclass \<Rightarrow> attrs \<Rightarrow> (error + bag) \<times> transcoder" where
  "serialize_attrs E self cls attrs =
     (if \<not> serialize_without_json self then
        (let self' = self\<lparr>json_encoder_cls := Some (default_encoder self)\<rparr> in
         (case json_dumps E (default_encoder self) attrs of
            Inl e \<Rightarrow> (Inl e, self')
          | Inr s \<Rightarrow>
              if always_encrypt self \<or> cls_always_encrypt cls then
                (case cipher self of
                   None \<Rightarrow> (Inl (ValueError CannotEncrypt), self')
                 | Some c \<Rightarrow> (Inr (Str (encrypt c s)), self'))
              else (Inr (Str s), self')))
      else (Inr (Value (PDict attrs)), self))"

text \<open>
  \<^verbatim>\<open>Transcoder.serialize\<close>. The result is what the call returns or raises, together
  with the transcoder after the call. A value without \<^verbatim>\<open>__dict__\<close> fails at line 59.
\<close>

definition serialize ::
  "env \<Rightarrow> transcoder \<Rightarrow> string \<Rightarrow> pyval \<Rightarrow> (error + stored_event) \<times> transcoder" where
  "serialize E self fresh domain_event =
     (case domain_event of
        PObj cls dict \<Rightarrow>
          (case take_event_id self fresh dict of
             Inl e \<Rightarrow> (Inl e, self)
           | Inr (eid, attrs) \<Rightarrow>
               (case id_prefix_from_event domain_event of
                  Inl e \<Rightarrow> (Inl e, self)
                | Inr id_prefix \<Rightarrow>
                    (case get_entity_id dict of
                       Inl e \<Rightarrow> (Inl e, self)
                     | Inr entity_id \<Rightarrow>
                         (case serialize_attrs E self cls attrs of
                            (Inl e, self') \<Rightarrow> (Inl e, self')
                          | (Inr payload, self') \<Rightarrow>
                              (Inr \<lparr>event_id = eid,
                                    stored_entity_id =
                                      make_stored_entity_id E (PStr id_prefix) entity_id,
                                    event_topic = topic_from_domain_class E cls,
                                    event_attrs = payload\<rparr>, self')))))
      | _ \<Rightarrow> (Inl AttributeError, self))"

text \<open>
  Lines 108 to 119 of \<^verbatim>\<open>deserialize\<close>. The cipher and \<^verbatim>\<open>json.loads\<close> take strings;
  handing them another value is a \<^verbatim>\<open>TypeError\<close>.
\<close>

definition deserialize_attrs ::
  "env \<Rightarrow> transcoder \<Rightarrow> pyclass \<Rightarrow> bag \<Rightarrow> (error + bag) \<times> transcoder" where
  "deserialize_attrs E self event_class attrs =
     (if \<not> serialize_without_json self then
        (let self' = self\<lparr>json_decoder_cls := Some (default_decoder self)\<rparr> in
         (if (always_encrypt self \<or> cls_always_encrypt event_class) \<and> cipher self = None
          then (Inl (ValueError CannotDecrypt), self')
          else (case attrs of
                  Value v \<Rightarrow> (Inl TypeError, self')
                | Str s \<Rightarrow>
                    (let s' = (if always_encrypt self \<or> cls_always_encrypt event_class
                               then (case cipher self of None \<Rightarrow> s | Some c \<Rightarrow> decrypt c s)
                               else s)
                     in (bindE (json_loads E (default_decoder self) s') (\<lambda>v. Inr (Value v)),
                         self')))))
      else (Inr attrs, self))"

text \<open>
  Line 123, \<^verbatim>\<open>event_attrs['domain_event_id'] = stored_event.event_id\<close>: only a dictionary
  takes the assignment.
\<close>

fun set_domain_event_id :: "bag \<Rightarrow> pyval \<Rightarrow> error + bag" where
  "set_domain_event_id (Value (PDict m)) v = Inr (Value (PDict (fmupd ''domain_event_id'' v m)))"
| "set_domain_event_id (Value (PNdarray a)) v = Inl IndexError"
| "set_domain_event_id b v = Inl TypeError"

text \<open>
  \<^verbatim>\<open>{}.update(event_attrs)\<close> on the empty dictionary of the new instance: the items of
  a dictionary; nothing for the empty string, \<^verbatim>\<open>ValueError\<close> for another string (its
  elements have length one); the environment's answer for the other iterables;
  \<^verbatim>\<open>TypeError\<close> for a value that is not iterable.
\<close>

fun dict_update :: "env \<Rightarrow> bag \<Rightarrow> error + attrs" where
  "dict_update E (Value (PDict m)) = Inr m"
| "dict_update E (Str (Opaque [])) = Inr fmempty"
| "dict_update E (Str s) = Inl (ValueError LibraryValueError)"
| "dict_update E (Value (PStr s)) = E_update_iterable E (PStr s)"
| "dict_update E (Value (PList xs)) = E_update_iterable E (PList xs)"
| "dict_update E (Value (PTuple xs)) = E_update_iterable E (PTuple xs)"
| "dict_update E (Value (PNdarray a)) = E_update_iterable E (PNdarray a)"
| "dict_update E (Value v) = Inl TypeError"

text \<open>
  Lines 126 to 133: \<^verbatim>\<open>object.__new__\<close> and the update inside the \<^verbatim>\<open>try\<close>, whose
  handler turns a \<^verbatim>\<open>TypeError\<close>, and nothing else, into the \<^verbatim>\<open>ValueError\<close> of line 130.
\<close>

definition reinstantiate :: "env \<Rightarrow> string \<Rightarrow> pyclass \<Rightarrow> bag \<Rightarrow> error + pyval" where
  "reinstantiate E topic event_class attrs =
     (case (if cls_new_ok event_class then dict_update E attrs else Inl TypeError) of
        Inr d \<Rightarrow> Inr (PObj event_class d)
      | Inl TypeError \<Rightarrow> Inl (ValueError (UnableToInstantiate topic attrs))
      | Inl e \<Rightarrow> Inl e)"

text \<open>
  \<^verbatim>\<open>Transcoder.deserialize\<close>: what the call returns or raises, and the transcoder
  after the call.
\<close>

definition deserialize ::
  "env \<Rightarrow> transcoder \<Rightarrow> stored_event \<Rightarrow> (error + pyval) \<times> transcoder" where
  "deserialize E self stored_event =
     (case resolve_domain_topic E (event_topic stored_event) of
        Inl e \<Rightarrow> (Inl e, self)
      | Inr (SymValue v) \<Rightarrow> (Inl (ValueError (NotAType (SymValue v))), self)
      | Inr (SymClass event_class) \<Rightarrow>
          if \<not> is_domain_event event_class
          then (Inl (ValueError (NotADomainEvent event_class)), self)
          else
            (case deserialize_attrs E self event_class (event_attrs stored_event) of
               (Inl e, self') \<Rightarrow> (Inl e, self')
             | (Inr attrs, self') \<Rightarrow>
                 (bindE (if serialize_with_uuid1 self
                         then set_domain_event_id attrs (event_id stored_event)
                         else Inr attrs)
                    (\<lambda>attrs'.
                       reinstantiate E (event_topic stored_event) event_class attrs'),
                  self')))"

section \<open>A concrete world for evaluation\<close>

text \<open>
  A module \<^verbatim>\<open>orders\<close> with two event classes, an abstract event class, a plain class
  whose constructor takes no arguments, and a name bound to an integer; one date and
  one time that print and parse; a topic written \<^verbatim>\<open>module#qualname\<close>.
\<close>

definition OrderPlaced :: pyclass where
  "OrderPlaced =
     \<lparr>cls_module = ''orders'', cls_qualname = ''Order.Placed'', is_domain_event = True,
      cls_always_encrypt = False, cls_new_ok = True\<rparr>"

definition CardCharged :: pyclass where
  "CardCharged =
     \<lparr>cls_module = ''orders'', cls_qualname = ''Card.Charged'', is_domain_event = True,
      cls_always_encrypt = True, cls_new_ok = True\<rparr>"

definition AbstractEvent :: pyclass where
  "AbstractEvent =
     \<lparr>cls_module = ''orders'', cls_qualname = ''AbstractEvent'', is_domain_event = True,
      cls_always_encrypt = False, cls_new_ok = False\<rparr>"

definition Money :: pyclass where
  "Money =
     \<lparr>cls_module = ''orders'', cls_qualname = ''Money'', is_domain_event = False,
      cls_always_encrypt = False, cls_new_ok = True\<rparr>"

definition orders_module :: "string \<Rightarrow> symbol option" where
  "orders_module name =
     (if name = ''Order.Placed'' then Some (SymClass OrderPlaced)
      else if name = ''Card.Charged'' then Some (SymClass CardCharged)
      else if name = ''AbstractEvent'' then Some (SymClass AbstractEvent)
      else if name = ''Money'' then Some (SymClass Money)
      else if name = ''LIMIT'' then Some (SymValue (PInt 100))
      else None)"

definition new_year :: date where
  "new_year = Date 2020 1 1"

definition midnight :: datetime where
  "midnight = Datetime new_year 0 0 0 0 (Some 60)"

definition E0 :: env where
  "E0 =
     \<lparr>E_numpy = True,
      E_strftime = (\<lambda>d. if d = midnight then ''2020-01-01T00:00:00.000000+0100'' else []),
      E_dateutil_parse =
        (\<lambda>s. if s = ''2020-01-01T00:00:00.000000+0100'' then Inr midnight
             else Inl (ValueError LibraryValueError)),
      E_isoformat = (\<lambda>d. if d = new_year then ''2020-01-01'' else []),
      E_strptime =
        (\<lambda>s. if s = ''2020-01-01'' then Inr new_year else Inl (ValueError LibraryValueError)),
      E_ndarray_dumps = buffer,
      E_ndarray_loads = (\<lambda>s. Inr (Ndarray 1 s)),
      E_modules = (\<lambda>m. if m = ''orders'' then Some orders_module else None),
      E_topics =
        (\<lambda>t. if take 7 t = ''orders#'' then orders_module (drop 7 t) else None),
      E_topic_from_domain_class = (\<lambda>c. cls_module c @ ''#'' @ cls_qualname c),
      E_construct =
        (\<lambda>c kwargs. if kwargs = fmempty then Inr (PObj c fmempty) else Inl TypeError),
      E_str = (\<lambda>v. []),
      E_update_iterable = (\<lambda>v. Inl (ValueError LibraryValueError)),
      E_in_ndarray = (\<lambda>k a. False)\<rparr>"

text \<open>The transcoder as \<^verbatim>\<open>Transcoder()\<close> builds it, and a cipher that reverses the text.\<close>

definition T0 :: transcoder where
  "T0 =
     \<lparr>json_encoder_cls = None, json_decoder_cls = None, cipher = None,
      always_encrypt = False, serialize_without_json = False, serialize_with_uuid1 = True\<rparr>"

definition order_attrs :: attrs where
  "order_attrs =
     fmupd ''domain_event_id'' (PStr ''e7'')
       (fmupd ''entity_id'' (PStr ''ord-1'') (fmupd ''total'' (PInt 5) fmempty))"

definition order_event :: pyval where
  "order_event = PObj OrderPlaced order_attrs"

text \<open>The record \<^verbatim>\<open>serialize\<close> makes of the order event with the transcoder above.\<close>

definition order_record :: stored_event where
  "order_record =
     \<lparr>event_id = PStr ''e7'', stored_entity_id = ''Order::ord-1'',
      event_topic = ''orders#Order.Placed'',
      event_attrs =
        Str (Doc (JObj (fmupd ''entity_id'' (JStr ''ord-1'') (fmupd ''total'' (JInt 5) fmempty))))\<rparr>"

text \<open>
  A cipher that wraps the text and unwraps it again, an event of the always-encrypted
  class, and transcoders that differ from \<open>T0\<close> in one setting each.
\<close>

fun box :: "wire \<Rightarrow> wire" where
  "box (Doc j) = Doc (JArr [j])"
| "box (Opaque s) = Opaque (CHR ''#'' # s)"

fun unbox :: "wire \<Rightarrow> wire" where
  "unbox (Doc (JArr [j])) = Doc j"
| "unbox (Opaque (c # s)) = Opaque s"
| "unbox s = s"

definition box_cipher :: cipher_adapter where
  "box_cipher = \<lparr>encrypt = box, decrypt = unbox\<rparr>"

definition card_attrs :: attrs where
  "card_attrs =
     fmupd ''domain_event_id'' (PStr ''e8'')
       (fmupd ''entity_id'' (PStr ''card-1'') (fmupd ''pan'' (PStr ''4111'') fmempty))"

definition card_event :: pyval where
  "card_event = PObj CardCharged card_attrs"

definition T_passthrough :: transcoder where
  "T_passthrough = T0\<lparr>cipher := Some box_cipher, serialize_without_json := True\<rparr>"

definition T_passthrough_no_cipher :: transcoder where
  "T_passthrough_no_cipher = T0\<lparr>always_encrypt := True, serialize_without_json := True\<rparr>"

definition T_cipher :: transcoder where
  "T_cipher = T0\<lparr>cipher := Some box_cipher\<rparr>"

definition T_random :: transcoder where
  "T_random = T0\<lparr>serialize_with_uuid1 := False\<rparr>"

text \<open>The records of the card event under the three transcoders that return one.\<close>

definition card_cleartext :: attrs where
  "card_cleartext = fmupd ''entity_id'' (PStr ''card-1'') (fmupd ''pan'' (PStr ''4111'') fmempty)"

definition card_record_plain :: stored_event where
  "card_record_plain =
     \<lparr>event_id = PStr ''e8'', stored_entity_id = ''Card::card-1'',
      event_topic = ''orders#Card.Charged'', event_attrs = Value (PDict card_cleartext)\<rparr>"

definition card_json :: json where
  "card_json = JObj (fmupd ''entity_id'' (JStr ''card-1'') (fmupd ''pan'' (JStr ''4111'') fmempty))"

definition card_record :: stored_event where
  "card_record =
     \<lparr>event_id = PStr ''e8'', stored_entity_id = ''Card::card-1'',
      event_topic = ''orders#Card.Charged'', event_attrs = Str (Doc (JArr [card_json]))\<rparr>"

text \<open>Stored events whose topic or payload is not what \<^verbatim>\<open>serialize\<close> writes.\<close>

definition missing_record :: stored_event where
  "missing_record = order_record\<lparr>event_topic := ''orders#Order.Shipped''\<rparr>"

definition limit_record :: stored_event where
  "limit_record = order_record\<lparr>event_topic := ''orders#LIMIT''\<rparr>"

definition money_record :: stored_event where
  "money_record = order_record\<lparr>event_topic := ''orders#Money''\<rparr>"

definition abstract_record :: stored_event where
  "abstract_record = order_record\<lparr>event_topic := ''orders#AbstractEvent''\<rparr>"

definition five_record :: stored_event where
  "five_record = order_record\<lparr>event_attrs := Str (Doc (JInt 5))\<rparr>"

section \<open>Reserved tags\<close>

text \<open>
  The tests of \<^verbatim>\<open>ObjectJSONDecoder.from_jsonable\<close> taken together: a dictionary for
  which one of them holds is handed to a tag's decoder.
\<close>

definition has_tag :: "attrs \<Rightarrow> bool" where
  "has_tag d \<longleftrightarrow>
     ''__ndarray__'' |\<in>| fmdom d
     \<or> (''__class__'' |\<in>| fmdom d \<and> ''__module__'' |\<in>| fmdom d)
     \<or> ''ISO8601_datetime'' |\<in>| fmdom d
     \<or> ''ISO8601_date'' |\<in>| fmdom d"

text \<open>JSON objects as another writer may have stored them, and plain dictionaries.\<close>

definition money_amount_doc :: json where
  "money_amount_doc =
     JObj (fmupd ''__class__'' (JStr ''Money'')
            (fmupd ''__module__'' (JStr ''orders'') (fmupd ''amount'' (JInt 5) fmempty)))"

definition money_currency_doc :: json where
  "money_currency_doc =
     JObj (fmupd ''__class__'' (JStr ''Money'')
            (fmupd ''__module__'' (JStr ''orders'') (fmupd ''currency'' (JStr ''EUR'') fmempty)))"

definition launch_dict :: attrs where
  "launch_dict =
     fmupd ''ISO8601_date'' (PStr ''2020-01-01'') (fmupd ''label'' (PStr ''launch'') fmempty)"

definition total_dict :: attrs where
  "total_dict = fmupd ''total'' (PInt 5) fmempty"

section \<open>Values that survive the codec\<close>

text \<open>
  The values \<^verbatim>\<open>ObjectJSONEncoder\<close> and \<^verbatim>\<open>ObjectJSONDecoder\<close> carry through unchanged:
  the scalars of JSON; lists of such values; dictionaries of such values that use no
  reserved key; a time, a date or a one-dimensional array that the libraries parse
  back from what they printed; and an object of an importable class whose constructor,
  called without arguments, builds an equal object. A tuple comes back as a list.
\<close>

primrec survives_codec :: "env \<Rightarrow> pyval \<Rightarrow> bool" where
  "survives_codec E PNone = True"
| "survives_codec E (PBool b) = True"
| "survives_codec E (PInt i) = True"
| "survives_codec E (PFloat f) = True"
| "survives_codec E (PStr s) = True"
| "survives_codec E (PList xs) = list_all (\<lambda>b. b) (map (survives_codec E) xs)"
| "survives_codec E (PTuple xs) = False"
| "survives_codec E (PDict m) = (\<not> has_tag m \<and> fmpred (\<lambda>k b. b) (fmmap (survives_codec E) m))"
| "survives_codec E (PDatetime d) = (E_dateutil_parse E (E_strftime E d) = Inr d)"
| "survives_codec E (PDate d) = (E_strptime E (E_isoformat E d) = Inr d)"
| "survives_codec E (PNdarray a) =
     (E_numpy E \<and> ndim a = 1 \<and> E_ndarray_loads E (E_ndarray_dumps E a) = Inr a)"
| "survives_codec E (PObj c a) =
     (bindE (import_module E (PStr (cls_module c)))
        (\<lambda>module. resolve_attr module (PStr (cls_qualname c))) = Inr (SymClass c)
      \<and> E_construct E c fmempty = Inr (PObj c a))"

text \<open>An order event with a tuple among its attributes, and what comes back for it.\<close>

definition basket_attrs :: attrs where
  "basket_attrs =
     fmupd ''domain_event_id'' (PStr ''e7'')
       (fmupd ''entity_id'' (PStr ''ord-1'') (fmupd ''items'' (PTuple [PInt 1, PInt 2]) fmempty))"

definition basket_attrs_back :: attrs where
  "basket_attrs_back =
     fmupd ''domain_event_id'' (PStr ''e7'')
       (fmupd ''entity_id'' (PStr ''ord-1'') (fmupd ''items'' (PList [PInt 1, PInt 2]) fmempty))"

definition basket_record :: stored_event where
  "basket_record =
     \<lparr>event_id = PStr ''e7'', stored_entity_id = ''Order::ord-1'',
      event_topic = ''orders#Order.Placed'',
      event_attrs =
        Str (Doc (JObj (fmupd ''entity_id'' (JStr ''ord-1'')
                         (fmupd ''items'' (JArr [JInt 1, JInt 2]) fmempty))))\<rparr>"

text \<open>An event with a date, a time, a nested dictionary and a list among its attributes.\<close>

definition launch_attrs :: attrs where
  "launch_attrs =
     fmupd ''domain_event_id'' (PStr ''e9'')
       (fmupd ''entity_id'' (PStr ''ord-2'')
         (fmupd ''day'' (PDate new_year)
           (fmupd ''at'' (PDatetime midnight)
             (fmupd ''lines'' (PList [PDict total_dict, PNone, PBool True]) fmempty))))"

section \<open>Properties\<close>

subsection \<open>Stored entity ids\<close>

lemma split_on_first: "\<exists>ws. split_on sep s = takeWhile (\<lambda>x. x \<noteq> sep) s # ws"
  by (induction s) (auto split: list.splits)

lemma id_prefix_from_event_class_eq:
  "is_domain_event c \<Longrightarrow>
   id_prefix_from_event_class c = Inr (takeWhile (\<lambda>x. x \<noteq> CHR ''.'') (cls_qualname c))"
proof -
  assume a: "is_domain_event c"
  obtain ws where "split_on CHR ''.'' (cls_qualname c) =
      takeWhile (\<lambda>x. x \<noteq> CHR ''.'') (cls_qualname c) # ws"
    using split_on_first by blast
  with a show ?thesis by (simp add: id_prefix_from_event_class_def)
qed

lemma serialize_Inr_iff:
  "fst (serialize E self fresh ev) = Inr r \<longleftrightarrow>
   (\<exists>c d eid attrs id_prefix entity_id payload.
      ev = PObj c d \<and> take_event_id self fresh d = Inr (eid, attrs) \<and>
      id_prefix_from_event ev = Inr id_prefix \<and> get_entity_id d = Inr entity_id \<and>
      fst (serialize_attrs E self c attrs) = Inr payload \<and>
      r = \<lparr>event_id = eid,
            stored_entity_id = make_stored_entity_id E (PStr id_prefix) entity_id,
            event_topic = topic_from_domain_class E c, event_attrs = payload\<rparr>)"
  by (cases ev) (auto simp: serialize_def split: sum.splits prod.splits)

lemma serialize_order_event: "fst (serialize E0 T0 [] order_event) = Inr order_record"
  by (simp add: serialize_def order_event_def order_attrs_def take_event_id_def T0_def
      id_prefix_from_event_def id_prefix_from_event_class_def OrderPlaced_def get_entity_id_def
      serialize_attrs_def default_encoder_def json_dumps_def ObjectJSONEncoder_encode_def
      make_stored_entity_id_def topic_from_domain_class_def E0_def fmdrop_fmupd fmmap_fmupd
      order_record_def)

text \<open>
  Claim C7. The stream key of a prefix and an entity id is the string
  \<^verbatim>\<open><prefix>::<entity_id>\<close>; the prefix of an event class is the part of its qualified
  name before the first dot, whatever else the class holds; and the
  \<^verbatim>\<open>stored_entity_id\<close> of every record \<^verbatim>\<open>serialize\<close> returns is built from the class's
  qualified name and the event's \<^verbatim>\<open>entity_id\<close> alone: it depends neither on the
  transcoder, nor on the other attributes, nor on the random token.
\<close>

theorem stored_entity_id_deterministic:
  "make_stored_entity_id E (PStr id_prefix) (PStr entity_id) = id_prefix @ ''::'' @ entity_id
   \<and> (is_domain_event c \<longrightarrow>
        id_prefix_from_event_class c = Inr (takeWhile (\<lambda>x. x \<noteq> CHR ''.'') (cls_qualname c)))
   \<and> (fst (serialize E self fresh (PObj c d)) = Inr r \<longrightarrow>
        (\<exists>v. fmlookup d ''entity_id'' = Some v \<and>
             stored_entity_id r =
               takeWhile (\<lambda>x. x \<noteq> CHR ''.'') (cls_qualname c) @ ''::'' @ py_format E v))"
proof (intro conjI impI)
  show "make_stored_entity_id E (PStr id_prefix) (PStr entity_id) = id_prefix @ ''::'' @ entity_id"
    by (simp add: make_stored_entity_id_def)
next
  assume "is_domain_event c"
  then show "id_prefix_from_event_class c = Inr (takeWhile (\<lambda>x. x \<noteq> CHR ''.'') (cls_qualname c))"
    by (rule id_prefix_from_event_class_eq)
next
  assume "fst (serialize E self fresh (PObj c d)) = Inr r"
  then obtain id_prefix entity_id where
    p: "id_prefix_from_event (PObj c d) = Inr id_prefix" and
    e: "get_entity_id d = Inr entity_id" and
    r: "stored_entity_id r = make_stored_entity_id E (PStr id_prefix) entity_id"
    unfolding serialize_Inr_iff by auto
  from p have ev: "is_domain_event c" and "id_prefix_from_event_class c = Inr id_prefix"
    by (auto simp: id_prefix_from_event_def split: if_splits)
  with id_prefix_from_event_class_eq [OF ev]
  have "id_prefix = takeWhile (\<lambda>x. x \<noteq> CHR ''.'') (cls_qualname c)" by simp
  moreover from e have "fmlookup d ''entity_id'' = Some entity_id"
    by (simp add: get_entity_id_def split: option.splits)
  ultimately show "\<exists>v. fmlookup d ''entity_id'' = Some v \<and>
             stored_entity_id r =
               takeWhile (\<lambda>x. x \<noteq> CHR ''.'') (cls_qualname c) @ ''::'' @ py_format E v"
    using r by (simp add: make_stored_entity_id_def)
qed

theorem stored_entity_id_deterministic_witness:
  "is_domain_event OrderPlaced
   \<and> id_prefix_from_event_class OrderPlaced = Inr ''Order''
   \<and> fst (serialize E0 T0 [] (PObj OrderPlaced order_attrs)) = Inr order_record
   \<and> fmlookup order_attrs ''entity_id'' = Some (PStr ''ord-1'')
   \<and> stored_entity_id order_record = ''Order::ord-1''"
  using stored_entity_id_deterministic [of E0 "[]" "[]" OrderPlaced T0 "[]" order_attrs order_record]
    serialize_order_event
  by (simp add: OrderPlaced_def order_attrs_def order_event_def order_record_def)

subsection \<open>Decoding what the encoder writes\<close>

lemma collect_list_map_Inr: "collect_list (map Inr xs) = Inr xs"
  by (induction xs) auto

lemma sorted_list_of_fmap_fmmap:
  "sorted_list_of_fmap (fmmap f m) = map (\<lambda>(k, v). (k, f v)) (sorted_list_of_fmap m)"
proof -
  have "\<And>k. k \<in> set (sorted_list_of_fset (fmdom m)) \<Longrightarrow>
      the (map_option f (fmlookup m k)) = f (the (fmlookup m k))"
    by (auto simp: fmlookup_dom_iff)
  then show ?thesis
    by (simp add: sorted_list_of_fmap_def comp_def)
qed

lemma sorted_list_of_fset_empty: "sorted_list_of_fset {||} = []"
proof -
  have "set (sorted_list_of_fset ({||} :: 'a fset)) = {}" by simp
  then show ?thesis by (simp only: set_empty)
qed

lemma sorted_list_of_fmap_empty: "sorted_list_of_fmap fmempty = []"
  by (simp add: sorted_list_of_fmap_def sorted_list_of_fset_empty)

lemma collect_fmap_Inr: "collect_fmap (fmmap Inr m) = Inr m"
proof -
  have "map snd (sorted_list_of_fmap (fmmap Inr m)) = map Inr (map snd (sorted_list_of_fmap m))"
    by (simp add: sorted_list_of_fmap_fmmap case_prod_unfold comp_def)
  then have "collect_list (map snd (sorted_list_of_fmap (fmmap Inr m))) =
      Inr (map snd (sorted_list_of_fmap m))"
    using collect_list_map_Inr [of "map snd (sorted_list_of_fmap m)"] by metis
  moreover have "fmmap projr (fmmap Inr m) = m"
    by (rule fmap_ext) (simp add: option.map_comp comp_def option.map_ident)
  ultimately show ?thesis
    by (simp add: collect_fmap_def)
qed

lemma decode_tagged_strings:
  "decode_value h (JObj (fmmap JStr m)) = h (PDict (fmmap PStr m))"
proof -
  have "fmmap (decode_value h) (fmmap JStr m) = fmmap Inr (fmmap PStr m)"
    by (rule fmap_ext) (simp add: option.map_comp comp_def)
  then show ?thesis by (simp add: collect_fmap_Inr bindE_def)
qed

lemma decode_class_no_attrs:
  "decode_class E rec
     (PDict (fmupd ''__class__'' (PStr q) (fmupd ''__module__'' (PStr m) fmempty))) =
   bindE (import_module E (PStr m)) (\<lambda>module.
     bindE (resolve_attr module (PStr q)) (\<lambda>cls. call_symbol E cls fmempty))"
  by (auto simp: decode_class_def bindE_def fmdrop_fmupd split: sum.splits)

lemma from_jsonable_class_tag:
  "from_jsonable E
     (PDict (fmupd ''__class__'' (PStr q) (fmupd ''__module__'' (PStr m) fmempty))) =
   bindE (import_module E (PStr m)) (\<lambda>module.
     bindE (resolve_attr module (PStr q)) (\<lambda>cls. call_symbol E cls fmempty))"
  by (simp add: from_jsonable_step_def bindE_def decode_class_no_attrs [unfolded bindE_def])

text \<open>
  Claim C10. What the generic branch of the encoder writes for an object holds the two
  keys \<^verbatim>\<open>__class__\<close> and \<^verbatim>\<open>__module__\<close> and nothing else, so two objects of one
  class are encoded alike whatever their attributes; and decoding that form imports
  the module, resolves the name and calls what it finds with no keyword argument: this
  call's result or exception is the result of decoding.
\<close>

theorem generic_object_encoding_drops_attributes:
  "ObjectJSONEncoder_default E (PObj c a) =
     fmupd ''__class__'' (cls_qualname c) (fmupd ''__module__'' (cls_module c) fmempty)
   \<and> fmdom (ObjectJSONEncoder_default E (PObj c a)) = {|''__class__'', ''__module__''|}
   \<and> ObjectJSONEncoder_encode E (PObj c a) = ObjectJSONEncoder_encode E (PObj c a')
   \<and> decode_value (from_jsonable E) (ObjectJSONEncoder_encode E (PObj c a)) =
       bindE (import_module E (PStr (cls_module c))) (\<lambda>module.
         bindE (resolve_attr module (PStr (cls_qualname c))) (\<lambda>cls.
           call_symbol E cls fmempty))"
proof (intro conjI)
  show "decode_value (from_jsonable E) (ObjectJSONEncoder_encode E (PObj c a)) =
       bindE (import_module E (PStr (cls_module c))) (\<lambda>module.
         bindE (resolve_attr module (PStr (cls_qualname c))) (\<lambda>cls.
           call_symbol E cls fmempty))"
    unfolding ObjectJSONEncoder_encode_def encode_value.simps decode_tagged_strings
    by (simp add: fmmap_fmupd from_jsonable_class_tag del: from_jsonable.simps)
qed (simp_all add: ObjectJSONEncoder_encode_def)

theorem generic_object_encoding_drops_attributes_witness:
  "decode_value (from_jsonable E0)
     (ObjectJSONEncoder_encode E0 (PObj Money (fmupd ''amount'' (PInt 5) fmempty))) =
   Inr (PObj Money fmempty)"
  using generic_object_encoding_drops_attributes [of E0 Money "fmupd ''amount'' (PInt 5) fmempty"]
  by (simp add: bindE_def import_module_def resolve_attr_def call_symbol_def E0_def Money_def
      orders_module_def)

subsection \<open>Encryption\<close>

lemma serialize_attrs_json:
  "\<not> serialize_without_json self \<Longrightarrow>
   serialize_attrs E self c attrs =
     (case json_dumps E (default_encoder self) attrs of
        Inl e \<Rightarrow> Inl e
      | Inr s \<Rightarrow>
          if always_encrypt self \<or> cls_always_encrypt c
          then (case cipher self of None \<Rightarrow> Inl (ValueError CannotEncrypt)
                | Some k \<Rightarrow> Inr (Str (encrypt k s)))
          else Inr (Str s),
      self\<lparr>json_encoder_cls := Some (default_encoder self)\<rparr>)"
  by (simp add: serialize_attrs_def Let_def split: sum.splits option.splits)

lemmas serialize_eval =
  serialize_def take_event_id_def id_prefix_from_event_def id_prefix_from_event_class_def
  get_entity_id_def serialize_attrs_def default_encoder_def json_dumps_def
  ObjectJSONEncoder_encode_def make_stored_entity_id_def topic_from_domain_class_def
  fmdrop_fmupd fmmap_fmupd

lemma serialize_card_passthrough:
  "serialize E0 T_passthrough [] card_event = (Inr card_record_plain, T_passthrough)"
  by (simp add: serialize_eval card_event_def card_attrs_def T_passthrough_def T0_def
      CardCharged_def E0_def card_record_plain_def card_cleartext_def)

lemma serialize_card_passthrough_no_cipher:
  "serialize E0 T_passthrough_no_cipher [] card_event =
     (Inr card_record_plain, T_passthrough_no_cipher)"
  by (simp add: serialize_eval card_event_def card_attrs_def T_passthrough_no_cipher_def T0_def
      CardCharged_def E0_def card_record_plain_def card_cleartext_def)

lemma serialize_card_cipher:
  "serialize E0 T_cipher [] card_event =
     (Inr card_record, T_cipher\<lparr>json_encoder_cls := Some ObjectJSONEncoder\<rparr>)"
  by (simp add: serialize_eval card_event_def card_attrs_def T_cipher_def T0_def
      CardCharged_def E0_def card_record_def card_json_def box_cipher_def)

text \<open>
  Claim C2, as stated, fails when JSON is switched off: the test of the
  \<^verbatim>\<open>always_encrypt\<close> flags sits inside \<^verbatim>\<open>if not self.serialize_without_json\<close>, so the
  record of an always-encrypted event holds the attribute dictionary itself, with a
  cipher configured or not.
\<close>

theorem passthrough_payload_is_cleartext:
  "cls_always_encrypt CardCharged
   \<and> cipher T_passthrough = Some box_cipher
   \<and> serialize_without_json T_passthrough
   \<and> fst (serialize E0 T_passthrough [] (PObj CardCharged card_attrs)) = Inr card_record_plain
   \<and> event_attrs card_record_plain =
       Value (PDict (fmupd ''entity_id'' (PStr ''card-1'') (fmupd ''pan'' (PStr ''4111'') fmempty)))"
  using serialize_card_passthrough
  by (simp add: card_event_def CardCharged_def T_passthrough_def T0_def card_record_plain_def
      card_cleartext_def)

text \<open>
  Claim C2, amended. When JSON is on (\<^verbatim>\<open>serialize_without_json\<close> is false) and the
  event's class or the transcoder is set to always encrypt, every record
  \<^verbatim>\<open>serialize\<close> returns holds in \<^verbatim>\<open>event_attrs\<close> what the configured cipher's
  \<^verbatim>\<open>encrypt\<close> returns on the JSON text of the attributes, and a cipher is configured.
\<close>

theorem encrypted_payload_in_json_mode:
  assumes "\<not> serialize_without_json self"
    and "always_encrypt self \<or> cls_always_encrypt c"
    and "fst (serialize E self fresh (PObj c d)) = Inr r"
  shows "\<exists>k eid attrs s.
           cipher self = Some k \<and> take_event_id self fresh d = Inr (eid, attrs) \<and>
           json_dumps E (default_encoder self) attrs = Inr s \<and>
           event_attrs r = Str (encrypt k s)"
proof -
  from assms(3) obtain eid attrs payload where
    t: "take_event_id self fresh d = Inr (eid, attrs)" and
    p: "fst (serialize_attrs E self c attrs) = Inr payload" and
    r: "event_attrs r = payload"
    unfolding serialize_Inr_iff by auto
  from p assms(1,2) obtain k s where "cipher self = Some k"
    "json_dumps E (default_encoder self) attrs = Inr s" "payload = Str (encrypt k s)"
    by (auto simp: serialize_attrs_json split: sum.splits option.splits)
  with t r show ?thesis by auto
qed

theorem encrypted_payload_in_json_mode_witness:
  "\<not> serialize_without_json T_cipher
   \<and> (always_encrypt T_cipher \<or> cls_always_encrypt CardCharged)
   \<and> fst (serialize E0 T_cipher [] (PObj CardCharged card_attrs)) = Inr card_record
   \<and> (\<exists>k eid attrs s.
         cipher T_cipher = Some k \<and> take_event_id T_cipher [] card_attrs = Inr (eid, attrs) \<and>
         json_dumps E0 (default_encoder T_cipher) attrs = Inr s \<and>
         event_attrs card_record = Str (encrypt k s))"
proof -
  have a: "\<not> serialize_without_json T_cipher"
    by (simp add: T_cipher_def T0_def)
  have b: "always_encrypt T_cipher \<or> cls_always_encrypt CardCharged"
    by (simp add: CardCharged_def)
  have c: "fst (serialize E0 T_cipher [] (PObj CardCharged card_attrs)) = Inr card_record"
    using serialize_card_cipher by (simp add: card_event_def)
  from encrypted_payload_in_json_mode [OF a b c] a b c show ?thesis by blast
qed

text \<open>
  Claim C3, as stated, fails when JSON is switched off: with the transcoder set to
  always encrypt and no cipher, \<^verbatim>\<open>serialize\<close> returns a record and raises nothing.
\<close>

theorem passthrough_needs_no_cipher:
  "always_encrypt T_passthrough_no_cipher
   \<and> cls_always_encrypt CardCharged
   \<and> cipher T_passthrough_no_cipher = None
   \<and> fst (serialize E0 T_passthrough_no_cipher [] (PObj CardCharged card_attrs)) =
       Inr card_record_plain"
  using serialize_card_passthrough_no_cipher
  by (simp add: card_event_def CardCharged_def T_passthrough_no_cipher_def T0_def)

text \<open>
  Claim C3, amended. When JSON is on, the event's class or the transcoder is set to
  always encrypt and no cipher is configured, \<^verbatim>\<open>serialize\<close> returns no record: it
  raises. Once the identifier and the entity id are found, the event is of the event
  family and the attributes are encoded, what it raises is the
  \<^verbatim>\<open>ValueError\<close> "Can't encrypt without a cipher", and the only trace of the call is the
  encoder class filled in on the transcoder.
\<close>

theorem missing_cipher_in_json_mode:
  assumes "\<not> serialize_without_json self"
    and "always_encrypt self \<or> cls_always_encrypt c"
    and "cipher self = None"
  shows "(\<exists>e. fst (serialize E self fresh (PObj c d)) = Inl e)
    \<and> (\<forall>eid attrs v s.
          take_event_id self fresh d = Inr (eid, attrs) \<and> is_domain_event c \<and>
          fmlookup d ''entity_id'' = Some v \<and>
          json_dumps E (default_encoder self) attrs = Inr s \<longrightarrow>
          serialize E self fresh (PObj c d) =
            (Inl (ValueError CannotEncrypt),
             self\<lparr>json_encoder_cls := Some (default_encoder self)\<rparr>))"
proof
  show "\<exists>e. fst (serialize E self fresh (PObj c d)) = Inl e"
  proof (cases "fst (serialize E self fresh (PObj c d))")
    case (Inr r)
    from encrypted_payload_in_json_mode [OF assms(1,2) Inr] assms(3) show ?thesis by auto
  qed auto
next
  show "\<forall>eid attrs v s.
          take_event_id self fresh d = Inr (eid, attrs) \<and> is_domain_event c \<and>
          fmlookup d ''entity_id'' = Some v \<and>
          json_dumps E (default_encoder self) attrs = Inr s \<longrightarrow>
          serialize E self fresh (PObj c d) =
            (Inl (ValueError CannotEncrypt),
             self\<lparr>json_encoder_cls := Some (default_encoder self)\<rparr>)"
    using assms
    by (auto simp: serialize_def serialize_attrs_json id_prefix_from_event_def
        id_prefix_from_event_class_eq get_entity_id_def)
qed

theorem missing_cipher_in_json_mode_witness:
  "\<not> serialize_without_json T0
   \<and> (always_encrypt T0 \<or> cls_always_encrypt CardCharged)
   \<and> cipher T0 = None
   \<and> take_event_id T0 [] card_attrs = Inr (PStr ''e8'', card_cleartext)
   \<and> is_domain_event CardCharged
   \<and> fmlookup card_attrs ''entity_id'' = Some (PStr ''card-1'')
   \<and> json_dumps E0 (default_encoder T0) card_cleartext = Inr (Doc card_json)
   \<and> serialize E0 T0 [] (PObj CardCharged card_attrs) =
       (Inl (ValueError CannotEncrypt), T0\<lparr>json_encoder_cls := Some ObjectJSONEncoder\<rparr>)"
proof -
  have a: "\<not> serialize_without_json T0" "cipher T0 = None"
    by (simp_all add: T0_def)
  have b: "always_encrypt T0 \<or> cls_always_encrypt CardCharged" "is_domain_event CardCharged"
    by (simp_all add: CardCharged_def)
  have c: "take_event_id T0 [] card_attrs = Inr (PStr ''e8'', card_cleartext)"
    by (simp add: take_event_id_def T0_def card_attrs_def card_cleartext_def fmdrop_fmupd)
  have d: "fmlookup card_attrs ''entity_id'' = Some (PStr ''card-1'')"
    by (simp add: card_attrs_def)
  have e: "json_dumps E0 (default_encoder T0) card_cleartext = Inr (Doc card_json)"
    by (simp add: json_dumps_def default_encoder_def T0_def ObjectJSONEncoder_encode_def
        card_cleartext_def card_json_def fmmap_fmupd)
  have f: "default_encoder T0 = ObjectJSONEncoder"
    by (simp add: default_encoder_def T0_def)
  from missing_cipher_in_json_mode [OF a(1) b(1) a(2), of E0 "[]" card_attrs] a b c d e f
  show ?thesis by auto
qed

subsection \<open>The state of the transcoder\<close>

lemma default_encoder_filled:
  "default_encoder (self\<lparr>json_encoder_cls := Some (default_encoder self)\<rparr>) = default_encoder self"
  by (simp add: default_encoder_def)

lemma default_decoder_filled:
  "default_decoder (self\<lparr>json_decoder_cls := Some (default_decoder self)\<rparr>) = default_decoder self"
  by (simp add: default_decoder_def)

lemma serialize_attrs_state:
  "snd (serialize_attrs E self c attrs) =
     (if serialize_without_json self then self
      else self\<lparr>json_encoder_cls := Some (default_encoder self)\<rparr>)"
  by (simp add: serialize_attrs_def Let_def split: sum.splits option.splits)

lemma serialize_attrs_filled:
  "serialize_attrs E (self\<lparr>json_encoder_cls := Some (default_encoder self)\<rparr>) c attrs =
     (fst (serialize_attrs E self c attrs), self\<lparr>json_encoder_cls := Some (default_encoder self)\<rparr>)"
  by (simp add: serialize_attrs_def Let_def default_encoder_filled split: sum.splits option.splits)

lemma serialize_attrs_stateD:
  "serialize_attrs E self c attrs = (x, s) \<Longrightarrow>
   s = self \<or> s = self\<lparr>json_encoder_cls := Some (default_encoder self)\<rparr>"
  using serialize_attrs_state [of E self c attrs] by (simp split: if_splits)

lemma serialize_state:
  "snd (serialize E self fresh ev) = self \<or>
   snd (serialize E self fresh ev) = self\<lparr>json_encoder_cls := Some (default_encoder self)\<rparr>"
proof (cases ev)
  case (PObj c d)
  show ?thesis
    by (auto simp: PObj serialize_def split: sum.splits prod.splits dest: serialize_attrs_stateD)
qed (simp_all add: serialize_def)

lemma serialize_filled:
  "serialize E (self\<lparr>json_encoder_cls := Some (default_encoder self)\<rparr>) fresh ev =
     (fst (serialize E self fresh ev), self\<lparr>json_encoder_cls := Some (default_encoder self)\<rparr>)"
proof (cases ev)
  case (PObj c d)
  show ?thesis
    by (auto simp: PObj serialize_def serialize_attrs_filled take_event_id_def
        split: sum.splits prod.splits option.splits)
qed (simp_all add: serialize_def)

lemma serialize_uuid1_ignores_fresh:
  "serialize_with_uuid1 self \<Longrightarrow> serialize E self fresh ev = serialize E self fresh' ev"
  by (cases ev) (simp_all add: serialize_def take_event_id_def)

lemma deserialize_attrs_state:
  "snd (deserialize_attrs E self c b) =
     (if serialize_without_json self then self
      else self\<lparr>json_decoder_cls := Some (default_decoder self)\<rparr>)"
  by (simp add: deserialize_attrs_def Let_def split: bag.splits)

lemma deserialize_attrs_filled:
  "deserialize_attrs E (self\<lparr>json_decoder_cls := Some (default_decoder self)\<rparr>) c b =
     (fst (deserialize_attrs E self c b), self\<lparr>json_decoder_cls := Some (default_decoder self)\<rparr>)"
  by (simp add: deserialize_attrs_def Let_def default_decoder_filled split: bag.splits)

lemma deserialize_attrs_stateD:
  "deserialize_attrs E self c b = (x, s) \<Longrightarrow>
   s = self \<or> s = self\<lparr>json_decoder_cls := Some (default_decoder self)\<rparr>"
  using deserialize_attrs_state [of E self c b] by (simp split: if_splits)

lemma deserialize_state:
  "snd (deserialize E self r) = self \<or>
   snd (deserialize E self r) = self\<lparr>json_decoder_cls := Some (default_decoder self)\<rparr>"
  by (auto simp: deserialize_def split: sum.splits prod.splits symbol.splits
      dest: deserialize_attrs_stateD)

lemma deserialize_filled:
  "deserialize E (self\<lparr>json_decoder_cls := Some (default_decoder self)\<rparr>) r =
     (fst (deserialize E self r), self\<lparr>json_decoder_cls := Some (default_decoder self)\<rparr>)"
  by (auto simp: deserialize_def deserialize_attrs_filled split: sum.splits prod.splits symbol.splits)

lemma serialize_order_event_state:
  "snd (serialize E0 T0 [] order_event) = T0\<lparr>json_encoder_cls := Some ObjectJSONEncoder\<rparr>"
  by (simp add: serialize_eval order_event_def order_attrs_def T0_def OrderPlaced_def E0_def)

lemma serialize_order_event_random:
  "fst (serialize E0 T_random fresh order_event) =
     Inr (order_record\<lparr>event_id := PStr fresh,
           event_attrs := Str (Doc (JObj (fmupd ''domain_event_id'' (JStr ''e7'')
             (fmupd ''entity_id'' (JStr ''ord-1'') (fmupd ''total'' (JInt 5) fmempty)))))\<rparr>)"
  by (simp add: serialize_eval order_event_def order_attrs_def T_random_def T0_def OrderPlaced_def
      E0_def order_record_def)

text \<open>
  Claim C9, as stated, fails twice. The first \<^verbatim>\<open>serialize\<close> of a transcoder built
  without an encoder class assigns \<^verbatim>\<open>self.json_encoder_cls\<close> (lines 74 and 75), so the
  call changes the transcoder; and with \<^verbatim>\<open>serialize_with_uuid1\<close> off the event id is
  \<^verbatim>\<open>uuid.uuid4().hex\<close>, so two calls on the same event return different records.
\<close>

theorem serialize_assigns_encoder_class:
  "json_encoder_cls T0 = None
   \<and> snd (serialize E0 T0 [] order_event) = T0\<lparr>json_encoder_cls := Some ObjectJSONEncoder\<rparr>
   \<and> snd (serialize E0 T0 [] order_event) \<noteq> T0
   \<and> fst (serialize E0 T_random ''a1'' order_event) \<noteq> fst (serialize E0 T_random ''b2'' order_event)"
proof -
  have "T0\<lparr>json_encoder_cls := Some ObjectJSONEncoder\<rparr> \<noteq> T0"
    by (simp add: T0_def)
  then show ?thesis
    by (simp add: serialize_order_event_state serialize_order_event_random order_record_def)
      (simp add: T0_def)
qed

text \<open>
  Claim C9, amended. With \<^verbatim>\<open>serialize_with_uuid1\<close> on, what \<^verbatim>\<open>serialize\<close> returns and
  leaves behind does not depend on the random token. In every mode the only change
  \<^verbatim>\<open>serialize\<close> makes to the transcoder is to store the encoder class it used where none
  was given, and \<^verbatim>\<open>deserialize\<close> likewise for the decoder class; on a transcoder that
  holds the class already the call returns the same result and changes nothing.
\<close>

theorem transcoder_state_only_fills_defaults:
  "(serialize_with_uuid1 self \<longrightarrow> serialize E self fresh ev = serialize E self fresh' ev)
   \<and> (snd (serialize E self fresh ev) = self \<or>
       snd (serialize E self fresh ev) = self\<lparr>json_encoder_cls := Some (default_encoder self)\<rparr>)
   \<and> serialize E (self\<lparr>json_encoder_cls := Some (default_encoder self)\<rparr>) fresh ev =
       (fst (serialize E self fresh ev), self\<lparr>json_encoder_cls := Some (default_encoder self)\<rparr>)
   \<and> (snd (deserialize E self r) = self \<or>
       snd (deserialize E self r) = self\<lparr>json_decoder_cls := Some (default_decoder self)\<rparr>)
   \<and> deserialize E (self\<lparr>json_decoder_cls := Some (default_decoder self)\<rparr>) r =
       (fst (deserialize E self r), self\<lparr>json_decoder_cls := Some (default_decoder self)\<rparr>)"
  using serialize_uuid1_ignores_fresh [of self E fresh ev fresh'] serialize_state [of E self fresh ev]
    serialize_filled [of E self fresh ev] deserialize_state [of E self r]
    deserialize_filled [of E self r]
  by blast

theorem transcoder_state_only_fills_defaults_witness:
  "serialize_with_uuid1 T0
   \<and> serialize E0 T0 ''a1'' order_event = serialize E0 T0 ''b2'' order_event
   \<and> serialize E0 (T0\<lparr>json_encoder_cls := Some (default_encoder T0)\<rparr>) ''a1'' order_event =
       (fst (serialize E0 T0 ''a1'' order_event), T0\<lparr>json_encoder_cls := Some (default_encoder T0)\<rparr>)"
  using transcoder_state_only_fills_defaults [of T0 E0 "''a1''" order_event "''b2''"]
  by (simp add: T0_def)

subsection \<open>Resolving the topic\<close>

lemma collect_fmap_all:
  assumes "\<And>k v. fmlookup m k = Some v \<Longrightarrow> \<exists>x. v = Inr x"
  shows "collect_fmap m = Inr (fmmap projr m)"
proof -
  have "m = fmmap Inr (fmmap projr m)"
  proof (rule fmap_ext)
    fix k
    show "fmlookup m k = fmlookup (fmmap Inr (fmmap projr m)) k"
      using assms [of k] by (cases "fmlookup m k") auto
  qed
  then show ?thesis using collect_fmap_Inr [of "fmmap projr m"] by simp
qed

lemmas deserialize_eval =
  deserialize_def resolve_domain_topic_def deserialize_attrs_def default_decoder_def
  json_loads_def ObjectJSONDecoder_decode_def reinstantiate_def bindE_def

lemma from_jsonable_order_payload:
  "from_jsonable E0
     (PDict (fmupd ''entity_id'' (PStr ''ord-1'') (fmupd ''total'' (PInt 5) fmempty))) =
   Inr (PDict (fmupd ''entity_id'' (PStr ''ord-1'') (fmupd ''total'' (PInt 5) fmempty)))"
  by (simp add: from_jsonable_step_def bindE_def)

lemma decode_order_payload:
  "decode_value (from_jsonable E0)
     (JObj (fmupd ''entity_id'' (JStr ''ord-1'') (fmupd ''total'' (JInt 5) fmempty))) =
   Inr (PDict (fmupd ''entity_id'' (PStr ''ord-1'') (fmupd ''total'' (PInt 5) fmempty)))"
proof -
  have "collect_fmap (fmmap (decode_value (from_jsonable E0))
          (fmupd ''entity_id'' (JStr ''ord-1'') (fmupd ''total'' (JInt 5) fmempty))) =
        Inr (fmupd ''entity_id'' (PStr ''ord-1'') (fmupd ''total'' (PInt 5) fmempty))"
    by (subst collect_fmap_all) (auto simp: fmmap_fmupd split: if_splits)
  then show ?thesis
    using from_jsonable_order_payload by (simp add: bindE_def del: from_jsonable.simps)
qed

lemma resolve_E0:
  "resolve_domain_topic E0 ''orders#Order.Placed'' = Inr (SymClass OrderPlaced)"
  "resolve_domain_topic E0 ''orders#AbstractEvent'' = Inr (SymClass AbstractEvent)"
  by (simp_all add: resolve_domain_topic_def E0_def orders_module_def)

lemma deserialize_attrs_order_payload:
  "\<not> serialize_without_json self \<Longrightarrow> \<not> always_encrypt self \<Longrightarrow> \<not> cls_always_encrypt c \<Longrightarrow>
   json_decoder_cls self = None \<Longrightarrow>
   deserialize_attrs E0 self c (event_attrs order_record) =
     (Inr (Value (PDict (fmupd ''entity_id'' (PStr ''ord-1'') (fmupd ''total'' (PInt 5) fmempty)))),
      self\<lparr>json_decoder_cls := Some ObjectJSONDecoder\<rparr>)"
  by (simp add: deserialize_attrs_def default_decoder_def json_loads_def
      ObjectJSONDecoder_decode_def bindE_def order_record_def decode_order_payload
      del: decode_value.simps from_jsonable.simps)

lemma deserialize_event_class:
  "resolve_domain_topic E (event_topic r) = Inr (SymClass c) \<Longrightarrow> is_domain_event c \<Longrightarrow>
   fst (deserialize E self r) =
     bindE (fst (deserialize_attrs E self c (event_attrs r))) (\<lambda>attrs.
       bindE (if serialize_with_uuid1 self
              then set_domain_event_id attrs (event_id r) else Inr attrs)
         (reinstantiate E (event_topic r) c))"
  by (auto simp: deserialize_def bindE_def split: prod.splits sum.splits)

lemma deserialize_order_record:
  "deserialize E0 T0 order_record =
     (Inr order_event, T0\<lparr>json_decoder_cls := Some ObjectJSONDecoder\<rparr>)"
proof -
  have "deserialize_attrs E0 T0 OrderPlaced (event_attrs order_record) =
     (Inr (Value (PDict (fmupd ''entity_id'' (PStr ''ord-1'') (fmupd ''total'' (PInt 5) fmempty)))),
      T0\<lparr>json_decoder_cls := Some ObjectJSONDecoder\<rparr>)"
    by (rule deserialize_attrs_order_payload) (simp_all add: T0_def OrderPlaced_def)
  moreover have "event_topic order_record = ''orders#Order.Placed''"
    "event_id order_record = PStr ''e7''"
    by (simp_all add: order_record_def)
  ultimately show ?thesis
    by (simp add: deserialize_def resolve_E0 reinstantiate_def bindE_def order_event_def
        order_attrs_def)
      (simp add: T0_def OrderPlaced_def)
qed

text \<open>
  Claim C4, as stated, fails: only the unlocated topic raises the resolver's error.
  For a topic bound to something that is not a type, and for a type outside the event
  family, lines 101 to 105 raise \<^verbatim>\<open>ValueError\<close>, the exception class the module also
  raises for a missing cipher and for a failed reconstruction.
\<close>

theorem not_a_type_is_value_error:
  "E_topics E0 (event_topic limit_record) = Some (SymValue (PInt 100))
   \<and> fst (deserialize E0 T0 limit_record) = Inl (ValueError (NotAType (SymValue (PInt 100))))
   \<and> fst (deserialize E0 T0 limit_record) \<noteq> Inl (TopicResolutionError (event_topic limit_record))
   \<and> fst (deserialize E0 T0 money_record) = Inl (ValueError (NotADomainEvent Money))"
  by (simp add: deserialize_def resolve_domain_topic_def limit_record_def money_record_def
      order_record_def E0_def orders_module_def Money_def)

text \<open>
  Claim C4, amended. \<^verbatim>\<open>deserialize\<close> fails, returning no event and leaving the
  transcoder as it was, in three cases told apart by what is raised: a topic that
  cannot be located raises the resolver's type resolution error; a topic bound to
  something that is not a type raises \<^verbatim>\<open>ValueError\<close> "Event class is not a type";
  a type outside the event family raises \<^verbatim>\<open>ValueError\<close>
  "Event class is not a DomainEvent". When the topic names a type of the event family,
  none of the three checks fails and the call goes on to decode the payload.
\<close>

theorem deserialize_resolution_failures:
  "(E_topics E (event_topic r) = None \<longrightarrow>
      deserialize E self r = (Inl (TopicResolutionError (event_topic r)), self))
   \<and> (E_topics E (event_topic r) = Some (SymValue v) \<longrightarrow>
      deserialize E self r = (Inl (ValueError (NotAType (SymValue v))), self))
   \<and> (E_topics E (event_topic r) = Some (SymClass c) \<and> \<not> is_domain_event c \<longrightarrow>
      deserialize E self r = (Inl (ValueError (NotADomainEvent c)), self))
   \<and> (E_topics E (event_topic r) = Some (SymClass c) \<and> is_domain_event c \<longrightarrow>
      deserialize E self r =
        (case deserialize_attrs E self c (event_attrs r) of
           (Inl e, self') \<Rightarrow> (Inl e, self')
         | (Inr attrs, self') \<Rightarrow>
             (bindE (if serialize_with_uuid1 self
                     then set_domain_event_id attrs (event_id r) else Inr attrs)
                (reinstantiate E (event_topic r) c), self')))
   \<and> TopicResolutionError t \<noteq> ValueError (NotAType x)
   \<and> TopicResolutionError t \<noteq> ValueError (NotADomainEvent c')
   \<and> ValueError (NotAType x) \<noteq> ValueError (NotADomainEvent c')"
  by (simp add: deserialize_def resolve_domain_topic_def)

theorem deserialize_resolution_failures_witness:
  "E_topics E0 (event_topic missing_record) = None
   \<and> deserialize E0 T0 missing_record = (Inl (TopicResolutionError ''orders#Order.Shipped''), T0)
   \<and> E_topics E0 (event_topic limit_record) = Some (SymValue (PInt 100))
   \<and> deserialize E0 T0 limit_record = (Inl (ValueError (NotAType (SymValue (PInt 100)))), T0)
   \<and> E_topics E0 (event_topic money_record) = Some (SymClass Money)
   \<and> \<not> is_domain_event Money
   \<and> deserialize E0 T0 money_record = (Inl (ValueError (NotADomainEvent Money)), T0)
   \<and> E_topics E0 (event_topic order_record) = Some (SymClass OrderPlaced)
   \<and> is_domain_event OrderPlaced
   \<and> deserialize E0 T0 order_record =
       (Inr order_event, T0\<lparr>json_decoder_cls := Some ObjectJSONDecoder\<rparr>)"
proof -
  have a: "E_topics E0 (event_topic missing_record) = None"
    "E_topics E0 (event_topic limit_record) = Some (SymValue (PInt 100))"
    "E_topics E0 (event_topic money_record) = Some (SymClass Money)"
    "E_topics E0 (event_topic order_record) = Some (SymClass OrderPlaced)"
    by (simp_all add: missing_record_def limit_record_def money_record_def order_record_def
        E0_def orders_module_def)
  have b: "\<not> is_domain_event Money" "is_domain_event OrderPlaced"
    by (simp_all add: Money_def OrderPlaced_def)
  have c: "event_topic missing_record = ''orders#Order.Shipped''"
    by (simp add: missing_record_def)
  from deserialize_resolution_failures [of E0 missing_record T0] a(1) c
  have 1: "deserialize E0 T0 missing_record =
      (Inl (TopicResolutionError ''orders#Order.Shipped''), T0)" by simp
  from deserialize_resolution_failures [of E0 limit_record T0 "PInt 100"] a(2)
  have 2: "deserialize E0 T0 limit_record =
      (Inl (ValueError (NotAType (SymValue (PInt 100)))), T0)" by simp
  from deserialize_resolution_failures [of E0 money_record T0 _ Money] a(3) b(1)
  have 3: "deserialize E0 T0 money_record = (Inl (ValueError (NotADomainEvent Money)), T0)"
    by simp
  from a b 1 2 3 deserialize_order_record show ?thesis by simp
qed

subsection \<open>Reinstantiation\<close>

lemma reinstantiate_abstract:
  "\<not> cls_new_ok c \<Longrightarrow>
   reinstantiate E topic c b = Inl (ValueError (UnableToInstantiate topic b))"
  by (simp add: reinstantiate_def)

lemma reinstantiate_dict:
  "cls_new_ok c \<Longrightarrow> reinstantiate E topic c (Value (PDict m)) = Inr (PObj c m)"
  by (simp add: reinstantiate_def)

text \<open>
  Claim C5 fails on the code. A stored event whose payload is the JSON text \<^verbatim>\<open>5\<close>
  decodes to an integer, which no event class can take as its attributes. With
  \<^verbatim>\<open>serialize_with_uuid1\<close> off the update inside the \<^verbatim>\<open>try\<close> raises \<^verbatim>\<open>TypeError\<close> and
  line 130 reports \<^verbatim>\<open>ValueError\<close> "Unable to instantiate class" with the topic
  and the payload, as it does for a class \<^verbatim>\<open>object.__new__\<close> rejects. With the
  default \<^verbatim>\<open>serialize_with_uuid1\<close> the assignment of line 123, which stands before
  the \<^verbatim>\<open>try\<close>, raises the \<^verbatim>\<open>TypeError\<close> first and it escapes as it is.
\<close>

theorem reconstruction_failure_escapes_as_type_error:
  "serialize_with_uuid1 T0
   \<and> fst (deserialize E0 T0 five_record) = Inl TypeError
   \<and> \<not> serialize_with_uuid1 T_random
   \<and> fst (deserialize E0 T_random five_record) =
       Inl (ValueError (UnableToInstantiate ''orders#Order.Placed'' (Value (PInt 5))))
   \<and> fst (deserialize E0 T0 abstract_record) =
       Inl (ValueError (UnableToInstantiate ''orders#AbstractEvent'' (Value (PDict order_attrs))))"
proof -
  have a: "deserialize_attrs E0 T0 AbstractEvent (event_attrs abstract_record) =
     (Inr (Value (PDict (fmupd ''entity_id'' (PStr ''ord-1'') (fmupd ''total'' (PInt 5) fmempty)))),
      T0\<lparr>json_decoder_cls := Some ObjectJSONDecoder\<rparr>)"
    using deserialize_attrs_order_payload [of T0 AbstractEvent]
    by (simp add: T0_def AbstractEvent_def abstract_record_def)
  have b: "fst (deserialize_attrs E0 T0 OrderPlaced (event_attrs five_record)) =
      Inr (Value (PInt 5))"
    "fst (deserialize_attrs E0 T_random OrderPlaced (event_attrs five_record)) =
      Inr (Value (PInt 5))"
    by (simp_all add: deserialize_attrs_def json_loads_def ObjectJSONDecoder_decode_def bindE_def
        five_record_def OrderPlaced_def Let_def T0_def T_random_def default_decoder_def)
  have c: "event_topic five_record = ''orders#Order.Placed''"
    "event_topic abstract_record = ''orders#AbstractEvent''"
    "event_id abstract_record = PStr ''e7''"
    by (simp_all add: five_record_def abstract_record_def order_record_def)
  have d: "serialize_with_uuid1 T0" "\<not> serialize_with_uuid1 T_random"
    "\<not> serialize_without_json T0" "\<not> serialize_without_json T_random"
    "\<not> always_encrypt T0" "\<not> always_encrypt T_random"
    by (simp_all add: T0_def T_random_def)
  have e: "is_domain_event OrderPlaced" "cls_new_ok OrderPlaced"
    "is_domain_event AbstractEvent" "\<not> cls_new_ok AbstractEvent"
    by (simp_all add: OrderPlaced_def AbstractEvent_def)
  have 1: "fst (deserialize E0 T0 five_record) = Inl TypeError"
    using b(1) c d e
    by (simp add: deserialize_event_class [OF _ e(1)] resolve_E0 bindE_def)
  have 2: "fst (deserialize E0 T_random five_record) =
       Inl (ValueError (UnableToInstantiate ''orders#Order.Placed'' (Value (PInt 5))))"
    using b(2) c d e
    by (simp add: deserialize_event_class [OF _ e(1)] resolve_E0 bindE_def reinstantiate_def)
  have 3: "fst (deserialize E0 T0 abstract_record) =
       Inl (ValueError (UnableToInstantiate ''orders#AbstractEvent'' (Value (PDict order_attrs))))"
    using a c d e
    by (simp add: deserialize_event_class [OF _ e(3)] resolve_E0 bindE_def reinstantiate_def
        order_attrs_def)
  from 1 2 3 d show ?thesis by simp
qed

subsection \<open>The generic object, decoded\<close>

lemma sorted_list_of_fmap_single: "sorted_list_of_fmap (fmupd k v fmempty) = [(k, v)]"
  by (simp add: sorted_list_of_fmap_def sorted_list_of_fset.rep_eq)

lemma fmupd_not_empty: "fmupd k v m \<noteq> fmempty"
proof
  assume "fmupd k v m = fmempty"
  then have "fmdom (fmupd k v m) = fmdom (fmempty :: ('a, 'b) fmap)" by simp
  then show False by simp
qed

lemma import_orders: "import_module E0 (PStr ''orders'') = Inr orders_module"
  by (simp add: import_module_def E0_def)

lemma construct_E0:
  "E_construct E0 c kwargs = (if kwargs = fmempty then Inr (PObj c fmempty) else Inl TypeError)"
  by (simp add: E0_def)

lemma decode_money_amount:
  "decode_value (from_jsonable E0) money_amount_doc = Inl TypeError"
proof -
  let ?d = "fmupd ''__class__'' (PStr ''Money'')
            (fmupd ''__module__'' (PStr ''orders'') (fmupd ''amount'' (PInt 5) fmempty))"
  have "collect_fmap (fmmap (decode_value (from_jsonable E0))
          (fmupd ''__class__'' (JStr ''Money'')
            (fmupd ''__module__'' (JStr ''orders'') (fmupd ''amount'' (JInt 5) fmempty)))) = Inr ?d"
    by (subst collect_fmap_all) (auto simp: fmmap_fmupd split: if_splits)
  moreover have "from_jsonable E0 (PDict ?d) = Inl TypeError"
    by (simp add: from_jsonable_step_def bindE_def decode_class_def import_orders
        resolve_attr_def orders_module_def call_symbol_def construct_E0 fmdrop_fmupd
        fmmap_fmupd fmupd_not_empty sorted_list_of_fmap_single)
  ultimately show ?thesis
    by (simp add: money_amount_doc_def bindE_def del: from_jsonable.simps)
qed

lemma decode_money_currency:
  "decode_value (from_jsonable E0) money_currency_doc =
     Inr (PObj Money (fmupd ''currency'' (PStr ''EUR'') fmempty))"
proof -
  let ?d = "fmupd ''__class__'' (PStr ''Money'')
            (fmupd ''__module__'' (PStr ''orders'') (fmupd ''currency'' (PStr ''EUR'') fmempty))"
  have "collect_fmap (fmmap (decode_value (from_jsonable E0))
          (fmupd ''__class__'' (JStr ''Money'')
            (fmupd ''__module__'' (JStr ''orders'') (fmupd ''currency'' (JStr ''EUR'') fmempty)))) =
        Inr ?d"
    by (subst collect_fmap_all) (auto simp: fmmap_fmupd split: if_splits)
  moreover have "from_jsonable E0 (PDict ?d) =
      Inr (PObj Money (fmupd ''currency'' (PStr ''EUR'') fmempty))"
    by (simp add: from_jsonable_step_def bindE_def decode_class_def import_orders
        resolve_attr_def orders_module_def call_symbol_def construct_E0 fmdrop_fmupd
        fmmap_fmupd fmupd_not_empty sorted_list_of_fmap_single)
  ultimately show ?thesis
    by (simp add: money_currency_doc_def bindE_def del: from_jsonable.simps)
qed

text \<open>
  Claim C8 fails on the code. The stored object
  \<^verbatim>\<open>{"__class__": "Money", "__module__": "orders", "amount": 5}\<close> names a class whose
  constructor takes no keyword: the first tier raises, the second tier calls the class
  without arguments and gets an instance, and then, instead of assigning
  \<^verbatim>\<open>amount = 5\<close>, the loop calls \<^verbatim>\<open>from_jsonable(5)\<close>, whose first test
  \<^verbatim>\<open>'__ndarray__' in 5\<close> raises \<^verbatim>\<open>TypeError\<close>. The fallback assigns an attribute only
  when its value is a string, a list or a dictionary, as the second object shows.
\<close>

theorem fallback_raises_on_scalar_attribute:
  "E_construct E0 Money (fmupd ''amount'' (PInt 5) fmempty) = Inl TypeError
   \<and> E_construct E0 Money fmempty = Inr (PObj Money fmempty)
   \<and> from_jsonable E0 (PInt 5) = Inl TypeError
   \<and> decode_value (from_jsonable E0) money_amount_doc = Inl TypeError
   \<and> decode_value (from_jsonable E0) money_currency_doc =
       Inr (PObj Money (fmupd ''currency'' (PStr ''EUR'') fmempty))"
  by (simp add: decode_money_amount decode_money_currency construct_E0 fmupd_not_empty
      from_jsonable_step_def bindE_def)

subsection \<open>Reserved tags in plain dictionaries\<close>

lemma from_jsonable_untagged: "\<not> has_tag d \<Longrightarrow> from_jsonable E (PDict d) = Inr (PDict d)"
  by (auto simp: has_tag_def from_jsonable_step_def bindE_def)

lemma from_jsonable_dispatch:
  "from_jsonable E (PDict d) =
     (if ''__ndarray__'' |\<in>| fmdom d then decode_ndarray E (PDict d)
      else if ''__class__'' |\<in>| fmdom d \<and> ''__module__'' |\<in>| fmdom d
        then decode_class E (fmmap (from_jsonable E) d) (PDict d)
      else if ''ISO8601_datetime'' |\<in>| fmdom d then decode_datetime E (PDict d)
      else if ''ISO8601_date'' |\<in>| fmdom d then decode_date E (PDict d)
      else Inr (PDict d))"
  by (simp add: from_jsonable_step_def bindE_def)

lemma decode_encoded_dict:
  assumes "\<And>v. v \<in> fmran' d \<Longrightarrow> decode_value h (encode_value g v) = Inr v"
  shows "decode_value h (encode_value g (PDict d)) = h (PDict d)"
proof -
  have "fmmap (decode_value h) (fmmap (encode_value g) d) = fmmap Inr d"
  proof (rule fmap_ext)
    fix k
    show "fmlookup (fmmap (decode_value h) (fmmap (encode_value g) d)) k =
          fmlookup (fmmap Inr d) k"
      using assms by (cases "fmlookup d k") (auto simp: fmran'I)
  qed
  then show ?thesis by (simp add: collect_fmap_Inr bindE_def)
qed

lemma decode_launch_dict:
  "decode_value (from_jsonable E0) (ObjectJSONEncoder_encode E0 (PDict launch_dict)) =
     Inr (PDate new_year)"
proof -
  have "decode_value (from_jsonable E0) (ObjectJSONEncoder_encode E0 (PDict launch_dict)) =
      from_jsonable E0 (PDict launch_dict)"
    unfolding ObjectJSONEncoder_encode_def
    by (rule decode_encoded_dict) (auto simp: launch_dict_def fmlookup_ran'_iff split: if_splits)
  also have "\<dots> = Inr (PDate new_year)"
    unfolding from_jsonable_dispatch
    by (simp add: launch_dict_def decode_date_def bindE_def E0_def)
  finally show ?thesis .
qed

text \<open>
  Claim C6, as stated, fails in its second half: the decoder has no way to tell a
  tagged form from a plain dictionary that uses the same key. The dictionary
  \<^verbatim>\<open>{'ISO8601_date': '2020-01-01', 'label': 'launch'}\<close>, encoded and decoded, comes
  back as a date, and its other item is lost.
\<close>

theorem plain_dict_with_tag_key_is_reinterpreted:
  "decode_value (from_jsonable E0) (ObjectJSONEncoder_encode E0 (PDict launch_dict)) =
     Inr (PDate new_year)
   \<and> Inr (PDate new_year) \<noteq> (Inr (PDict launch_dict) :: error + pyval)"
  by (simp add: decode_launch_dict)

text \<open>
  Claim C6, amended. A dictionary with none of the reserved keys
  (\<^verbatim>\<open>__ndarray__\<close>; \<^verbatim>\<open>__class__\<close> together with \<^verbatim>\<open>__module__\<close>;
  \<^verbatim>\<open>ISO8601_datetime\<close>; \<^verbatim>\<open>ISO8601_date\<close>) passes the hook unchanged, and, when its
  values survive encoding and decoding, so does the dictionary. A dictionary with a
  reserved key is handed to the decoder of the first tag that matches, in that order,
  whatever else it holds.
\<close>

theorem tag_dispatch:
  "(\<not> has_tag d \<longrightarrow> from_jsonable E (PDict d) = Inr (PDict d))
   \<and> (\<not> has_tag d \<and>
        (\<forall>v \<in> fmran' d.
           decode_value (from_jsonable E) (ObjectJSONEncoder_encode E v) = Inr v) \<longrightarrow>
        decode_value (from_jsonable E) (ObjectJSONEncoder_encode E (PDict d)) = Inr (PDict d))
   \<and> (''__ndarray__'' |\<in>| fmdom d \<longrightarrow> from_jsonable E (PDict d) = decode_ndarray E (PDict d))
   \<and> (''__ndarray__'' |\<notin>| fmdom d \<and> ''__class__'' |\<in>| fmdom d \<and> ''__module__'' |\<in>| fmdom d \<longrightarrow>
        from_jsonable E (PDict d) = decode_class E (fmmap (from_jsonable E) d) (PDict d))
   \<and> (''__ndarray__'' |\<notin>| fmdom d \<and> \<not> (''__class__'' |\<in>| fmdom d \<and> ''__module__'' |\<in>| fmdom d) \<and>
        ''ISO8601_datetime'' |\<in>| fmdom d \<longrightarrow>
        from_jsonable E (PDict d) = decode_datetime E (PDict d))
   \<and> (''__ndarray__'' |\<notin>| fmdom d \<and> \<not> (''__class__'' |\<in>| fmdom d \<and> ''__module__'' |\<in>| fmdom d) \<and>
        ''ISO8601_datetime'' |\<notin>| fmdom d \<and> ''ISO8601_date'' |\<in>| fmdom d \<longrightarrow>
        from_jsonable E (PDict d) = decode_date E (PDict d))"
proof -
  have "decode_value (from_jsonable E) (ObjectJSONEncoder_encode E (PDict d)) = Inr (PDict d)"
    if "\<not> has_tag d"
      and "\<forall>v \<in> fmran' d. decode_value (from_jsonable E) (ObjectJSONEncoder_encode E v) = Inr v"
  proof -
    have "decode_value (from_jsonable E) (ObjectJSONEncoder_encode E (PDict d)) =
        from_jsonable E (PDict d)"
      unfolding ObjectJSONEncoder_encode_def
      by (rule decode_encoded_dict) (use that(2) in \<open>simp add: ObjectJSONEncoder_encode_def\<close>)
    with from_jsonable_untagged [OF that(1)] show ?thesis by simp
  qed
  then show ?thesis
    using from_jsonable_untagged [of d E] from_jsonable_dispatch [of E d]
    by (simp del: from_jsonable.simps)
qed

theorem tag_dispatch_witness:
  "\<not> has_tag total_dict
   \<and> fmran' total_dict = {PInt 5}
   \<and> decode_value (from_jsonable E0) (ObjectJSONEncoder_encode E0 (PInt 5)) = Inr (PInt 5)
   \<and> decode_value (from_jsonable E0) (ObjectJSONEncoder_encode E0 (PDict total_dict)) =
       Inr (PDict total_dict)
   \<and> ''ISO8601_date'' |\<in>| fmdom launch_dict
   \<and> from_jsonable E0 (PDict launch_dict) = decode_date E0 (PDict launch_dict)
   \<and> ''__ndarray__'' |\<in>| fmdom (fmupd ''__ndarray__'' (PStr ''x'') total_dict)
   \<and> from_jsonable E0 (PDict (fmupd ''__ndarray__'' (PStr ''x'') total_dict)) =
       decode_ndarray E0 (PDict (fmupd ''__ndarray__'' (PStr ''x'') total_dict))
   \<and> from_jsonable E0 (PDict (fmupd ''ISO8601_datetime'' (PStr ''x'') total_dict)) =
       decode_datetime E0 (PDict (fmupd ''ISO8601_datetime'' (PStr ''x'') total_dict))
   \<and> from_jsonable E0 (PDict (fmupd ''__class__'' PNone (fmupd ''__module__'' PNone total_dict))) =
       decode_class E0
         (fmmap (from_jsonable E0) (fmupd ''__class__'' PNone (fmupd ''__module__'' PNone total_dict)))
         (PDict (fmupd ''__class__'' PNone (fmupd ''__module__'' PNone total_dict)))"
proof -
  have a: "\<not> has_tag total_dict"
    by (simp add: has_tag_def total_dict_def)
  have b: "\<forall>v \<in> fmran' total_dict.
        decode_value (from_jsonable E0) (ObjectJSONEncoder_encode E0 v) = Inr v"
    by (auto simp: total_dict_def fmlookup_ran'_iff ObjectJSONEncoder_encode_def split: if_splits)
  have c: "''ISO8601_date'' |\<in>| fmdom launch_dict" "''__ndarray__'' |\<notin>| fmdom launch_dict"
    "''__class__'' |\<notin>| fmdom launch_dict" "''ISO8601_datetime'' |\<notin>| fmdom launch_dict"
    by (simp_all add: launch_dict_def)
  have d: "''__ndarray__'' |\<in>| fmdom (fmupd ''__ndarray__'' (PStr ''x'') total_dict)"
    by simp
  have e: "''__ndarray__'' |\<notin>| fmdom (fmupd ''ISO8601_datetime'' (PStr ''x'') total_dict)"
    "''__class__'' |\<notin>| fmdom (fmupd ''ISO8601_datetime'' (PStr ''x'') total_dict)"
    "''ISO8601_datetime'' |\<in>| fmdom (fmupd ''ISO8601_datetime'' (PStr ''x'') total_dict)"
    by (simp_all add: total_dict_def)
  have f: "''__ndarray__'' |\<notin>| fmdom (fmupd ''__class__'' PNone (fmupd ''__module__'' PNone total_dict))"
    "''__class__'' |\<in>| fmdom (fmupd ''__class__'' PNone (fmupd ''__module__'' PNone total_dict))"
    "''__module__'' |\<in>| fmdom (fmupd ''__class__'' PNone (fmupd ''__module__'' PNone total_dict))"
    by (simp_all add: total_dict_def)
  from tag_dispatch [of total_dict E0] a b
  have 1: "decode_value (from_jsonable E0) (ObjectJSONEncoder_encode E0 (PDict total_dict)) =
       Inr (PDict total_dict)" by blast
  from tag_dispatch [of launch_dict E0] c
  have 2: "from_jsonable E0 (PDict launch_dict) = decode_date E0 (PDict launch_dict)" by blast
  from tag_dispatch [of "fmupd ''__ndarray__'' (PStr ''x'') total_dict" E0] d
  have 3: "from_jsonable E0 (PDict (fmupd ''__ndarray__'' (PStr ''x'') total_dict)) =
       decode_ndarray E0 (PDict (fmupd ''__ndarray__'' (PStr ''x'') total_dict))" by blast
  from tag_dispatch [of "fmupd ''ISO8601_datetime'' (PStr ''x'') total_dict" E0] e
  have 4: "from_jsonable E0 (PDict (fmupd ''ISO8601_datetime'' (PStr ''x'') total_dict)) =
       decode_datetime E0 (PDict (fmupd ''ISO8601_datetime'' (PStr ''x'') total_dict))" by blast
  from tag_dispatch [of "fmupd ''__class__'' PNone (fmupd ''__module__'' PNone total_dict)" E0] f
  have 5: "from_jsonable E0 (PDict (fmupd ''__class__'' PNone (fmupd ''__module__'' PNone total_dict))) =
       decode_class E0
         (fmmap (from_jsonable E0) (fmupd ''__class__'' PNone (fmupd ''__module__'' PNone total_dict)))
         (PDict (fmupd ''__class__'' PNone (fmupd ''__module__'' PNone total_dict)))" by blast
  have g: "fmran' total_dict = {PInt 5}"
    by (auto simp: total_dict_def fmlookup_ran'_iff split: if_splits)
  have h: "decode_value (from_jsonable E0) (ObjectJSONEncoder_encode E0 (PInt 5)) = Inr (PInt 5)"
    by (simp add: ObjectJSONEncoder_encode_def)
  from a g h c(1) d 1 2 3 4 5 show ?thesis by blast
qed

subsection \<open>The round trip\<close>

lemma collect_list_all_Inr:
  "(\<And>x. x \<in> set xs \<Longrightarrow> f x = Inr x) \<Longrightarrow> collect_list (map f xs) = Inr xs"
  by (induction xs) auto

lemma from_jsonable_datetime_tag:
  "from_jsonable E (PDict (fmupd ''ISO8601_datetime'' (PStr s) fmempty)) =
     bindE (E_dateutil_parse E s) (\<lambda>r. Inr (PDatetime r))"
  unfolding from_jsonable_dispatch by (simp add: decode_datetime_def bindE_def)

lemma from_jsonable_date_tag:
  "from_jsonable E (PDict (fmupd ''ISO8601_date'' (PStr s) fmempty)) =
     bindE (E_strptime E s) (\<lambda>r. Inr (PDate r))"
  unfolding from_jsonable_dispatch by (simp add: decode_date_def bindE_def)

lemma from_jsonable_ndarray_tag:
  "E_numpy E \<Longrightarrow>
   from_jsonable E (PDict (fmupd ''__ndarray__'' (PStr s) fmempty)) =
     bindE (E_ndarray_loads E s) (\<lambda>a. Inr (PNdarray a))"
  unfolding from_jsonable_dispatch by (simp add: decode_ndarray_def bindE_def)

lemma codec_roundtrip:
  "survives_codec E v \<Longrightarrow>
   decode_value (from_jsonable E) (ObjectJSONEncoder_encode E v) = Inr v"
proof (induction v)
  case (PList xs)
  then have "\<And>x. x \<in> set xs \<Longrightarrow>
      decode_value (from_jsonable E) (encode_value (ObjectJSONEncoder_default E) x) = Inr x"
    by (auto simp: list_all_iff ObjectJSONEncoder_encode_def)
  then have "collect_list (map (\<lambda>x. decode_value (from_jsonable E)
      (encode_value (ObjectJSONEncoder_default E) x)) xs) = Inr xs"
    by (rule collect_list_all_Inr)
  then show ?case
    by (simp add: ObjectJSONEncoder_encode_def comp_def bindE_def)
next
  case (PDict m)
  then have t: "\<not> has_tag m" and
    s: "\<And>v. v \<in> fmran' m \<Longrightarrow> survives_codec E v"
    by (auto simp: fmpred_iff fmlookup_ran'_iff)
  have "decode_value (from_jsonable E) (encode_value (ObjectJSONEncoder_default E) (PDict m)) =
      from_jsonable E (PDict m)"
    by (rule decode_encoded_dict)
      (use PDict.IH s in \<open>simp add: ObjectJSONEncoder_encode_def\<close>)
  with from_jsonable_untagged [OF t] show ?case
    by (simp add: ObjectJSONEncoder_encode_def del: from_jsonable.simps encode_value.simps)
next
  case (PDatetime d)
  then show ?case
    unfolding ObjectJSONEncoder_encode_def encode_value.simps decode_tagged_strings
    by (simp add: fmmap_fmupd from_jsonable_datetime_tag bindE_def del: from_jsonable.simps)
next
  case (PDate d)
  then show ?case
    unfolding ObjectJSONEncoder_encode_def encode_value.simps decode_tagged_strings
    by (simp add: fmmap_fmupd from_jsonable_date_tag bindE_def del: from_jsonable.simps)
next
  case (PNdarray a)
  then show ?case
    unfolding ObjectJSONEncoder_encode_def encode_value.simps decode_tagged_strings
    by (simp add: fmmap_fmupd from_jsonable_ndarray_tag bindE_def del: from_jsonable.simps)
next
  case (PObj c a)
  then have "bindE (import_module E (PStr (cls_module c)))
            (\<lambda>module. resolve_attr module (PStr (cls_qualname c))) = Inr (SymClass c)"
    and "E_construct E c fmempty = Inr (PObj c a)"
    by simp_all
  then have "bindE (import_module E (PStr (cls_module c))) (\<lambda>module.
         bindE (resolve_attr module (PStr (cls_qualname c))) (\<lambda>cls.
           call_symbol E cls fmempty)) = Inr (PObj c a)"
    by (auto simp: bindE_def call_symbol_def split: sum.splits)
  then show ?case
    unfolding ObjectJSONEncoder_encode_def encode_value.simps decode_tagged_strings
    by (simp add: fmmap_fmupd from_jsonable_class_tag del: from_jsonable.simps)
qed (simp_all add: ObjectJSONEncoder_encode_def)

lemma fmupd_fmdrop_same: "fmlookup d k = Some v \<Longrightarrow> fmupd k v (fmdrop k d) = d"
  by (rule fmap_ext) auto

lemma json_roundtrip:
  "survives_codec E (PDict attrs) \<Longrightarrow>
   json_dumps E ObjectJSONEncoder attrs = Inr (Doc (ObjectJSONEncoder_encode E (PDict attrs)))
   \<and> json_loads E ObjectJSONDecoder (Doc (ObjectJSONEncoder_encode E (PDict attrs))) =
       Inr (PDict attrs)"
  using codec_roundtrip [of E "PDict attrs"]
  by (simp add: json_dumps_def json_loads_def ObjectJSONDecoder_decode_def
      del: survives_codec.simps)

lemma decode_value_object:
  assumes "\<And>k j. fmlookup m k = Some j \<Longrightarrow> \<exists>v. decode_value h j = Inr v"
  shows "decode_value h (JObj m) = h (PDict (fmmap (\<lambda>j. projr (decode_value h j)) m))"
proof -
  have "collect_fmap (fmmap (decode_value h) m) = Inr (fmmap projr (fmmap (decode_value h) m))"
    by (rule collect_fmap_all) (use assms in auto)
  then show ?thesis
    by (simp add: bindE_def fmap.map_comp comp_def)
qed

lemma deserialize_attrs_plain:
  "\<not> serialize_without_json self \<Longrightarrow> \<not> always_encrypt self \<Longrightarrow> \<not> cls_always_encrypt c \<Longrightarrow>
   default_decoder self = ObjectJSONDecoder \<Longrightarrow>
   deserialize_attrs E self c (Str (Doc j)) =
     (bindE (decode_value (from_jsonable E) j) (\<lambda>v. Inr (Value v)),
      self\<lparr>json_decoder_cls := Some ObjectJSONDecoder\<rparr>)"
  by (simp add: deserialize_attrs_def json_loads_def ObjectJSONDecoder_decode_def)

lemma serialize_basket:
  "serialize E0 T0 [] (PObj OrderPlaced basket_attrs) =
     (Inr basket_record, T0\<lparr>json_encoder_cls := Some ObjectJSONEncoder\<rparr>)"
  by (simp add: serialize_eval basket_attrs_def T0_def OrderPlaced_def E0_def basket_record_def)

lemma decode_basket:
  "decode_value (from_jsonable E0)
     (JObj (fmupd ''entity_id'' (JStr ''ord-1'') (fmupd ''items'' (JArr [JInt 1, JInt 2]) fmempty))) =
   Inr (PDict (fmupd ''entity_id'' (PStr ''ord-1'')
                (fmupd ''items'' (PList [PInt 1, PInt 2]) fmempty)))"
proof -
  have "decode_value (from_jsonable E0)
     (JObj (fmupd ''entity_id'' (JStr ''ord-1'') (fmupd ''items'' (JArr [JInt 1, JInt 2]) fmempty))) =
     from_jsonable E0 (PDict (fmupd ''entity_id'' (PStr ''ord-1'')
                (fmupd ''items'' (PList [PInt 1, PInt 2]) fmempty)))"
    by (subst decode_value_object)
      (auto simp: fmmap_fmupd bindE_def split: if_splits simp del: from_jsonable.simps)
  also have "\<dots> = Inr (PDict (fmupd ''entity_id'' (PStr ''ord-1'')
                (fmupd ''items'' (PList [PInt 1, PInt 2]) fmempty)))"
    by (rule from_jsonable_untagged) (simp add: has_tag_def)
  finally show ?thesis .
qed

lemma deserialize_basket:
  "fst (deserialize E0 (T0\<lparr>json_encoder_cls := Some ObjectJSONEncoder\<rparr>) basket_record) =
     Inr (PObj OrderPlaced basket_attrs_back)"
proof -
  have a: "fst (deserialize_attrs E0 (T0\<lparr>json_encoder_cls := Some ObjectJSONEncoder\<rparr>) OrderPlaced
        (event_attrs basket_record)) =
      Inr (Value (PDict (fmupd ''entity_id'' (PStr ''ord-1'')
                (fmupd ''items'' (PList [PInt 1, PInt 2]) fmempty))))"
  proof -
    have p: "event_attrs basket_record =
        Str (Doc (JObj (fmupd ''entity_id'' (JStr ''ord-1'')
                         (fmupd ''items'' (JArr [JInt 1, JInt 2]) fmempty))))"
      by (simp add: basket_record_def)
    have q: "\<not> serialize_without_json (T0\<lparr>json_encoder_cls := Some ObjectJSONEncoder\<rparr>)"
      "\<not> always_encrypt (T0\<lparr>json_encoder_cls := Some ObjectJSONEncoder\<rparr>)"
      "\<not> cls_always_encrypt OrderPlaced"
      "default_decoder (T0\<lparr>json_encoder_cls := Some ObjectJSONEncoder\<rparr>) = ObjectJSONDecoder"
      by (simp_all add: T0_def OrderPlaced_def default_decoder_def)
    show ?thesis
      unfolding p deserialize_attrs_plain [OF q] decode_basket
      by (simp add: bindE_def)
  qed
  have b: "event_topic basket_record = ''orders#Order.Placed''"
    "event_id basket_record = PStr ''e7''"
    by (simp_all add: basket_record_def)
  have c: "is_domain_event OrderPlaced" "cls_new_ok OrderPlaced"
    by (simp_all add: OrderPlaced_def)
  have d: "serialize_with_uuid1 (T0\<lparr>json_encoder_cls := Some ObjectJSONEncoder\<rparr>)"
    by (simp add: T0_def)
  show ?thesis
    using a b c(2) d
    by (simp add: deserialize_event_class [OF _ c(1)] resolve_E0 bindE_def reinstantiate_def
        basket_attrs_back_def)
qed

text \<open>
  Claim C1, as stated, fails for an event whose attributes the codec does not carry
  through. An order event with the attribute \<^verbatim>\<open>items = (1, 2)\<close> is serialized with the
  tuple written as a JSON array, and deserialized with a list in its place, which is
  not equal to the tuple.
\<close>

theorem tuple_attribute_comes_back_as_list:
  "is_domain_event OrderPlaced
   \<and> fmlookup basket_attrs ''domain_event_id'' = Some (PStr ''e7'')
   \<and> serialize E0 T0 [] (PObj OrderPlaced basket_attrs) =
       (Inr basket_record, T0\<lparr>json_encoder_cls := Some ObjectJSONEncoder\<rparr>)
   \<and> fst (deserialize E0 (T0\<lparr>json_encoder_cls := Some ObjectJSONEncoder\<rparr>) basket_record) =
       Inr (PObj OrderPlaced basket_attrs_back)
   \<and> fmlookup basket_attrs ''items'' = Some (PTuple [PInt 1, PInt 2])
   \<and> fmlookup basket_attrs_back ''items'' = Some (PList [PInt 1, PInt 2])
   \<and> PObj OrderPlaced basket_attrs_back \<noteq> PObj OrderPlaced basket_attrs"
proof -
  have a: "fmlookup basket_attrs ''items'' = Some (PTuple [PInt 1, PInt 2])"
    "fmlookup basket_attrs_back ''items'' = Some (PList [PInt 1, PInt 2])"
    "fmlookup basket_attrs ''domain_event_id'' = Some (PStr ''e7'')"
    by (simp_all add: basket_attrs_def basket_attrs_back_def)
  then have "basket_attrs_back \<noteq> basket_attrs" by auto
  with a serialize_basket deserialize_basket show ?thesis
    by (simp add: OrderPlaced_def)
qed

text \<open>
  Claim C1, amended. Take the transcoder in its default mode (JSON on, the event id
  taken from the attribute \<^verbatim>\<open>domain_event_id\<close>) with the module's own encoder and
  decoder classes, and an event of the event family that carries \<^verbatim>\<open>entity_id\<close> and
  \<^verbatim>\<open>domain_event_id\<close>, whose class resolves from its own topic and can be
  instantiated, and whose other attributes survive the codec. Then, with encryption
  off, or on with a cipher whose \<^verbatim>\<open>decrypt\<close> inverts its \<^verbatim>\<open>encrypt\<close>,
  \<^verbatim>\<open>serialize\<close> returns a record and \<^verbatim>\<open>deserialize\<close> of that record returns an object
  of the same class whose attributes, the identifier included, equal the event's.
\<close>

theorem event_round_trip:
  assumes ev: "is_domain_event c" "cls_new_ok c"
    and topic: "E_topics E (E_topic_from_domain_class E c) = Some (SymClass c)"
    and eid: "fmlookup d ''entity_id'' = Some entity_id"
    and did: "fmlookup d ''domain_event_id'' = Some v"
    and mode: "serialize_with_uuid1 self" "\<not> serialize_without_json self"
    and codec: "default_encoder self = ObjectJSONEncoder" "default_decoder self = ObjectJSONDecoder"
    and vals: "survives_codec E (PDict (fmdrop ''domain_event_id'' d))"
    and enc: "always_encrypt self \<or> cls_always_encrypt c \<longrightarrow>
              (\<exists>k. cipher self = Some k \<and> (\<forall>s. decrypt k (encrypt k s) = s))"
  shows "\<exists>r. serialize E self fresh (PObj c d) =
               (Inr r, self\<lparr>json_encoder_cls := Some ObjectJSONEncoder\<rparr>)
           \<and> deserialize E (self\<lparr>json_encoder_cls := Some ObjectJSONEncoder\<rparr>) r =
               (Inr (PObj c d),
                self\<lparr>json_encoder_cls := Some ObjectJSONEncoder,
                      json_decoder_cls := Some ObjectJSONDecoder\<rparr>)"
proof -
  let ?attrs = "fmdrop ''domain_event_id'' d"
  let ?j = "ObjectJSONEncoder_encode E (PDict ?attrs)"
  let ?self' = "self\<lparr>json_encoder_cls := Some ObjectJSONEncoder\<rparr>"
  let ?on = "always_encrypt self \<or> cls_always_encrypt c"
  define s where "s = (if ?on then (case cipher self of None \<Rightarrow> Doc ?j | Some k \<Rightarrow> encrypt k (Doc ?j))
                       else Doc ?j)"
  define r where "r = \<lparr>event_id = v,
      stored_entity_id = make_stored_entity_id E
        (PStr (takeWhile (\<lambda>x. x \<noteq> CHR ''.'') (cls_qualname c))) entity_id,
      event_topic = topic_from_domain_class E c, event_attrs = Str s\<rparr>"
  note jr = json_roundtrip [OF vals]
  have sa: "serialize_attrs E self c ?attrs = (Inr (Str s), ?self')"
    using mode(2) codec(1) jr enc
    by (auto simp: serialize_attrs_json s_def)
  have ser: "serialize E self fresh (PObj c d) = (Inr r, ?self')"
    using ev(1) eid did mode(1) sa
    by (simp add: serialize_def take_event_id_def id_prefix_from_event_def
        id_prefix_from_event_class_eq get_entity_id_def r_def)
  have dec: "(if ?on then (case cipher self of None \<Rightarrow> s | Some k \<Rightarrow> decrypt k s) else s) = Doc ?j"
    using enc by (auto simp: s_def)
  have da: "deserialize_attrs E ?self' c (Str s) =
      (Inr (Value (PDict ?attrs)), ?self'\<lparr>json_decoder_cls := Some ObjectJSONDecoder\<rparr>)"
    using mode(2) codec(2) jr enc dec
    by (auto simp: deserialize_attrs_def default_decoder_def bindE_def Let_def)
  have res: "resolve_domain_topic E (event_topic r) = Inr (SymClass c)"
    using topic by (simp add: r_def resolve_domain_topic_def topic_from_domain_class_def)
  have "deserialize E ?self' r =
      (Inr (PObj c d), ?self'\<lparr>json_decoder_cls := Some ObjectJSONDecoder\<rparr>)"
    using res ev mode(1) da fmupd_fmdrop_same [OF did]
    by (simp add: deserialize_def r_def bindE_def reinstantiate_def)
  with ser show ?thesis by auto
qed

lemma unbox_box: "unbox (box s) = s"
  by (cases s) simp_all

lemma launch_attrs_survive:
  "survives_codec E0 (PDict (fmdrop ''domain_event_id'' launch_attrs))"
  by (auto simp: launch_attrs_def fmdrop_fmupd has_tag_def fmpred_iff total_dict_def E0_def
      split: if_splits)

lemma card_attrs_survive:
  "survives_codec E0 (PDict (fmdrop ''domain_event_id'' card_attrs))"
  by (auto simp: card_attrs_def fmdrop_fmupd has_tag_def fmpred_iff split: if_splits)

theorem event_round_trip_witness:
  "is_domain_event OrderPlaced \<and> cls_new_ok OrderPlaced
   \<and> E_topics E0 (E_topic_from_domain_class E0 OrderPlaced) = Some (SymClass OrderPlaced)
   \<and> fmlookup launch_attrs ''entity_id'' = Some (PStr ''ord-2'')
   \<and> fmlookup launch_attrs ''domain_event_id'' = Some (PStr ''e9'')
   \<and> serialize_with_uuid1 T0 \<and> \<not> serialize_without_json T0
   \<and> default_encoder T0 = ObjectJSONEncoder \<and> default_decoder T0 = ObjectJSONDecoder
   \<and> survives_codec E0 (PDict (fmdrop ''domain_event_id'' launch_attrs))
   \<and> (\<exists>r. serialize E0 T0 [] (PObj OrderPlaced launch_attrs) =
             (Inr r, T0\<lparr>json_encoder_cls := Some ObjectJSONEncoder\<rparr>)
         \<and> deserialize E0 (T0\<lparr>json_encoder_cls := Some ObjectJSONEncoder\<rparr>) r =
             (Inr (PObj OrderPlaced launch_attrs),
              T0\<lparr>json_encoder_cls := Some ObjectJSONEncoder,
                  json_decoder_cls := Some ObjectJSONDecoder\<rparr>))
   \<and> (always_encrypt T_cipher \<or> cls_always_encrypt CardCharged)
   \<and> cipher T_cipher = Some box_cipher
   \<and> (\<forall>s. decrypt box_cipher (encrypt box_cipher s) = s)
   \<and> survives_codec E0 (PDict (fmdrop ''domain_event_id'' card_attrs))
   \<and> (\<exists>r. serialize E0 T_cipher [] (PObj CardCharged card_attrs) =
             (Inr r, T_cipher\<lparr>json_encoder_cls := Some ObjectJSONEncoder\<rparr>)
         \<and> deserialize E0 (T_cipher\<lparr>json_encoder_cls := Some ObjectJSONEncoder\<rparr>) r =
             (Inr (PObj CardCharged card_attrs),
              T_cipher\<lparr>json_encoder_cls := Some ObjectJSONEncoder,
                        json_decoder_cls := Some ObjectJSONDecoder\<rparr>))"
proof -
  have o: "is_domain_event OrderPlaced" "cls_new_ok OrderPlaced"
    "E_topics E0 (E_topic_from_domain_class E0 OrderPlaced) = Some (SymClass OrderPlaced)"
    by (simp_all add: OrderPlaced_def E0_def orders_module_def)
  have c: "is_domain_event CardCharged" "cls_new_ok CardCharged"
    "E_topics E0 (E_topic_from_domain_class E0 CardCharged) = Some (SymClass CardCharged)"
    "always_encrypt T_cipher \<or> cls_always_encrypt CardCharged"
    by (simp_all add: CardCharged_def E0_def orders_module_def)
  have l: "fmlookup launch_attrs ''entity_id'' = Some (PStr ''ord-2'')"
    "fmlookup launch_attrs ''domain_event_id'' = Some (PStr ''e9'')"
    "fmlookup card_attrs ''entity_id'' = Some (PStr ''card-1'')"
    "fmlookup card_attrs ''domain_event_id'' = Some (PStr ''e8'')"
    by (simp_all add: launch_attrs_def card_attrs_def)
  have t: "serialize_with_uuid1 T0" "\<not> serialize_without_json T0"
    "default_encoder T0 = ObjectJSONEncoder" "default_decoder T0 = ObjectJSONDecoder"
    "\<not> always_encrypt T0" "\<not> cls_always_encrypt OrderPlaced"
    by (simp_all add: T0_def default_encoder_def default_decoder_def OrderPlaced_def)
  have k: "serialize_with_uuid1 T_cipher" "\<not> serialize_without_json T_cipher"
    "default_encoder T_cipher = ObjectJSONEncoder" "default_decoder T_cipher = ObjectJSONDecoder"
    "cipher T_cipher = Some box_cipher"
    by (simp_all add: T_cipher_def T0_def default_encoder_def default_decoder_def)
  have b: "\<forall>s. decrypt box_cipher (encrypt box_cipher s) = s"
    by (simp add: box_cipher_def unbox_box)
  have e0: "always_encrypt T0 \<or> cls_always_encrypt OrderPlaced \<longrightarrow>
      (\<exists>k. cipher T0 = Some k \<and> (\<forall>s. decrypt k (encrypt k s) = s))"
    using t by simp
  have e1: "always_encrypt T_cipher \<or> cls_always_encrypt CardCharged \<longrightarrow>
      (\<exists>k. cipher T_cipher = Some k \<and> (\<forall>s. decrypt k (encrypt k s) = s))"
    using k b by simp
  note w0 = event_round_trip [OF o l(1,2) t(1-4) launch_attrs_survive e0, of "[]"]
  note w1 = event_round_trip [OF c(1-3) l(3,4) k(1-4) card_attrs_survive e1, of "[]"]
  from o l t k b c launch_attrs_survive card_attrs_survive w0 w1 show ?thesis
    by blast
qed

end
